theory Spec2Isabelle
  imports Main "HOL-Library.Word" "HOL-Library.Sublist"
begin

section \<open>The BLE telemetry bridge of \<^verbatim>\<open>webserver.py\<close>\<close>

text \<open>
  The module keeps five globals (\<^verbatim>\<open>ble_client\<close>, \<^verbatim>\<open>current_data\<close>,
  \<^verbatim>\<open>connected_websockets\<close>, \<^verbatim>\<open>scanning\<close>, \<^verbatim>\<open>discovered_devices\<close>) and four
  coroutines work on them: \<^verbatim>\<open>notify_data\<close>, \<^verbatim>\<open>connect_ble\<close> (behind
  \<^verbatim>\<open>connect_endpoint\<close>), \<^verbatim>\<open>scan_devices\<close> and \<^verbatim>\<open>websocket_endpoint\<close>.
  Each coroutine is a function from the state to a result and the new state. Whatever
  the outside world decides (whether an awaited call raises, which advertisements
  arrive, what a socket receives) is an argument of the function.
\<close>

subsection \<open>Values: exceptions, JSON, dictionaries\<close>

text \<open>
  Every exception carries the text that \<^verbatim>\<open>str(e)\<close> yields. \<open>DecodeError\<close>,
  \<open>WebSocketDisconnect\<close> and \<open>ValueError\<close> are subclasses of Python's \<^verbatim>\<open>Exception\<close>;
  \<open>Exception\<close> stands for any other subclass, \<open>BaseException\<close> for what only a bare
  \<^verbatim>\<open>except:\<close> catches (a cancellation, a keyboard interrupt).
\<close>

datatype exn =
    DecodeError string
  | WebSocketDisconnect string
  | ValueError string
  | Exception string
  | BaseException string

fun str :: "exn \<Rightarrow> string" where
  "str (DecodeError m) = m"
| "str (WebSocketDisconnect m) = m"
| "str (ValueError m) = m"
| "str (Exception m) = m"
| "str (BaseException m) = m"

fun is_Exception :: "exn \<Rightarrow> bool" where
  "is_Exception (BaseException m) = False"
| "is_Exception e = True"

datatype json =
    JInt int
  | JBool bool
  | JStr string
  | JList "json list"
  | JDict "(string \<times> json) list"

type_synonym dict = "(string \<times> json) list"

text \<open>\<^verbatim>\<open>bytearray.hex()\<close>: two lower-case digits for each byte.\<close>

definition hex_digit :: "nat \<Rightarrow> char" where
  "hex_digit n = ''0123456789abcdef'' ! (n mod 16)"

definition hex_byte :: "8 word \<Rightarrow> string" where
  "hex_byte b = [hex_digit (unat b div 16), hex_digit (unat b mod 16)]"

definition hex :: "8 word list \<Rightarrow> string" where
  "hex data = concat (map hex_byte data)"

subsection \<open>The objects of the libraries\<close>

text \<open>
  A \<^verbatim>\<open>BleakClient\<close> is an object on the heap: the address and timeout it was built
  with, its \<^verbatim>\<open>is_connected\<close> property, and whether its notification subscription is
  on. A reference is the position of the object in the heap. A \<^verbatim>\<open>WebSocket\<close> has no
  state the module reads; it is its identity, a number.
\<close>

record BleakClient =
  client_address :: string
  timeout :: nat
  is_connected :: bool
  notifying :: bool

record BLEDevice =
  address :: string
  name :: "string option"

record AdvertisementData =
  rssi :: int

datatype TemperatureUnit = TemperatureUnit (unit_value: string)

record PacketNotify =
  battery :: int
  ambient_a :: int
  ambient_b :: int
  probe_p1 :: int
  probe_p2 :: int
  probe_p1_connected :: bool
  probe_p2_connected :: bool
  eco_mode :: bool
  temperature_unit :: TemperatureUnit

text \<open>
  The awaited calls of the module on the Bluetooth stack, in the order they are made,
  each with \<open>None\<close> when it returned and \<open>Some e\<close> when it raised \<open>e\<close>.
\<close>

datatype call =
    NewClient string
  | StopNotify nat
  | Disconnect nat
  | Connect nat
  | StartNotify nat
  | NewScanner
  | ScannerStart
  | Sleep nat
  | ScannerStop

type_synonym event = "call \<times> exn option"

text \<open>
  What a call does to the client objects. A call that raised leaves the flags as they
  were; a client is built unconnected; disconnecting ends the subscription with the link.
\<close>

fun effect :: "event \<Rightarrow> BleakClient list \<Rightarrow> BleakClient list" where
  "effect (NewClient a, None) h =
     h @ [\<lparr>client_address = a, timeout = 20, is_connected = False, notifying = False\<rparr>]"
| "effect (Connect r, None) h = h[r := (h ! r)\<lparr>is_connected := True\<rparr>]"
| "effect (StartNotify r, None) h = h[r := (h ! r)\<lparr>notifying := True\<rparr>]"
| "effect (StopNotify r, None) h = h[r := (h ! r)\<lparr>notifying := False\<rparr>]"
| "effect (Disconnect r, None) h = h[r := (h ! r)\<lparr>is_connected := False, notifying := False\<rparr>]"
| "effect ev h = h"

definition replay :: "event list \<Rightarrow> BleakClient list \<Rightarrow> BleakClient list" where
  "replay evs h = fold effect evs h"

text \<open>The clients whose notification subscription is live: connected and notifying.\<close>

definition live_subscriptions :: "BleakClient list \<Rightarrow> nat list" where
  "live_subscriptions h =
     filter (\<lambda>r. is_connected (h ! r) \<and> notifying (h ! r)) [0..<length h]"

subsection \<open>The state\<close>

text \<open>
  The five globals of the module, and the world around them: the heap of client
  objects, the calls made on the Bluetooth stack, the lines printed, and the messages
  that reached a websocket (\<open>None\<close> would be the JSON \<^verbatim>\<open>null\<close>).
\<close>

record state =
  ble_client :: "nat option"
  current_data :: "dict option"
  connected_websockets :: "nat list"
  scanning :: bool
  discovered_devices :: "dict list"
  heap :: "BleakClient list"
  trace :: "event list"
  stdout :: "string list"
  sent :: "(nat \<times> dict option) list"

definition initial :: state where
  "initial = \<lparr>ble_client = None, current_data = None, connected_websockets = [],
     scanning = False, discovered_devices = [], heap = [], trace = [], stdout = [],
     sent = []\<rparr>"

definition perform :: "call \<Rightarrow> exn option \<Rightarrow> state \<Rightarrow> state" where
  "perform c out g = g\<lparr>heap := effect (c, out) (heap g), trace := trace g @ [(c, out)]\<rparr>"

definition print :: "string \<Rightarrow> state \<Rightarrow> state" where
  "print line g = g\<lparr>stdout := stdout g @ [line]\<rparr>"

text \<open>Python's truth value of \<^verbatim>\<open>current_data\<close>: \<^verbatim>\<open>None\<close> and the empty dict are false.\<close>

fun truthy :: "dict option \<Rightarrow> bool" where
  "truthy None = False"
| "truthy (Some d) = (d \<noteq> [])"

subsection \<open>\<^verbatim>\<open>notify_data\<close>\<close>

text \<open>The dictionary that \<^verbatim>\<open>notify_data\<close> builds from a decoded packet.\<close>

definition telemetry :: "PacketNotify \<Rightarrow> dict" where
  "telemetry packet =
     [(''battery'', JInt (battery packet)),
      (''ambient_a'', JInt (ambient_a packet)),
      (''ambient_b'', JInt (ambient_b packet)),
      (''probe_p1'', JInt (probe_p1 packet)),
      (''probe_p2'', JInt (probe_p2 packet)),
      (''probe_p1_connected'', JBool (probe_p1_connected packet)),
      (''probe_p2_connected'', JBool (probe_p2_connected packet)),
      (''eco_mode'', JBool (eco_mode packet)),
      (''temperature_unit'', JStr (unit_value (temperature_unit packet)))]"

text \<open>
  The loop \<^verbatim>\<open>for ws in connected_websockets[:]\<close>: the list walked is the copy taken
  when the loop starts, the list edited is the global. \<open>send ws\<close> is what
  \<^verbatim>\<open>ws.send_json\<close> does for that socket: \<open>None\<close> when the message went out,
  \<open>Some e\<close> when it raised. The bare \<^verbatim>\<open>except:\<close> catches every exception;
  \<^verbatim>\<open>list.remove\<close> raises \<open>ValueError\<close> when the socket is not in the list. The loop
  runs here with no other task editing the list between two of its sends.
\<close>

fun send_all :: "(nat \<Rightarrow> exn option) \<Rightarrow> nat list \<Rightarrow> state \<Rightarrow> exn option \<times> state" where
  "send_all send [] g = (None, g)"
| "send_all send (ws # rest) g =
     (case send ws of
        None \<Rightarrow> send_all send rest (g\<lparr>sent := sent g @ [(ws, current_data g)]\<rparr>)
      | Some e \<Rightarrow>
          if ws \<in> set (connected_websockets g)
          then send_all send rest
                 (g\<lparr>connected_websockets := remove1 ws (connected_websockets g)\<rparr>)
          else (Some (ValueError ''list.remove(x): x not in list''), g))"

text \<open>The clause \<^verbatim>\<open>except DecodeError as exc\<close>: any other exception goes on to the caller.\<close>

definition except_DecodeError :: "8 word list \<Rightarrow> exn \<Rightarrow> state \<Rightarrow> exn option \<times> state" where
  "except_DecodeError data exc g =
     (case exc of
        DecodeError m \<Rightarrow>
          (None, print (''Failed to decode: '' @ hex data @ '' with error '' @ str exc) g)
      | _ \<Rightarrow> (Some exc, g))"

text \<open>
  \<^verbatim>\<open>NotifyCharacteristic.decode\<close> and \<^verbatim>\<open>PacketNotify.decode\<close> live in other modules;
  they are the arguments \<open>decode_characteristic\<close> and \<open>decode_packet\<close>, each returning
  the exception it raises or its value.
\<close>

definition notify_data ::
  "(8 word list \<Rightarrow> exn + 'p) \<Rightarrow> ('p \<Rightarrow> exn + PacketNotify) \<Rightarrow> (nat \<Rightarrow> exn option) \<Rightarrow>
   8 word list \<Rightarrow> state \<Rightarrow> exn option \<times> state" where
  "notify_data decode_characteristic decode_packet send data g =
     (case decode_characteristic data of
        Inl exc \<Rightarrow> except_DecodeError data exc g
      | Inr packet_data \<Rightarrow>
          (case decode_packet packet_data of
             Inl exc \<Rightarrow> except_DecodeError data exc g
           | Inr packet \<Rightarrow>
               let g1 = g\<lparr>current_data := Some (telemetry packet)\<rparr> in
               (case send_all send (connected_websockets g1) g1 of
                  (Some exc, g2) \<Rightarrow> except_DecodeError data exc g2
                | (None, g2) \<Rightarrow> (None, g2))))"

text \<open>
  The same loop with its suspension points. While \<^verbatim>\<open>await ws.send_json(current_data)\<close>
  waits, other tasks of the event loop run: \<open>meanwhile ws\<close> is what they do to the state
  before the send to \<open>ws\<close> returns or raises. The argument of the call is read before
  the wait. With \<open>meanwhile\<close> doing nothing this is \<open>send_all\<close>.
\<close>

fun send_all_awaiting ::
  "(nat \<Rightarrow> exn option) \<Rightarrow> (nat \<Rightarrow> state \<Rightarrow> state) \<Rightarrow> nat list \<Rightarrow> state \<Rightarrow> exn option \<times> state" where
  "send_all_awaiting send meanwhile [] g = (None, g)"
| "send_all_awaiting send meanwhile (ws # rest) g =
     (let data = current_data g; g1 = meanwhile ws g in
      case send ws of
        None \<Rightarrow> send_all_awaiting send meanwhile rest (g1\<lparr>sent := sent g1 @ [(ws, data)]\<rparr>)
      | Some e \<Rightarrow>
          if ws \<in> set (connected_websockets g1)
          then send_all_awaiting send meanwhile rest
                 (g1\<lparr>connected_websockets := remove1 ws (connected_websockets g1)\<rparr>)
          else (Some (ValueError ''list.remove(x): x not in list''), g1))"

definition notify_data_awaiting ::
  "(8 word list \<Rightarrow> exn + 'p) \<Rightarrow> ('p \<Rightarrow> exn + PacketNotify) \<Rightarrow> (nat \<Rightarrow> exn option) \<Rightarrow>
   (nat \<Rightarrow> state \<Rightarrow> state) \<Rightarrow> 8 word list \<Rightarrow> state \<Rightarrow> exn option \<times> state" where
  "notify_data_awaiting decode_characteristic decode_packet send meanwhile data g =
     (case decode_characteristic data of
        Inl exc \<Rightarrow> except_DecodeError data exc g
      | Inr packet_data \<Rightarrow>
          (case decode_packet packet_data of
             Inl exc \<Rightarrow> except_DecodeError data exc g
           | Inr packet \<Rightarrow>
               let g1 = g\<lparr>current_data := Some (telemetry packet)\<rparr> in
               (case send_all_awaiting send meanwhile (connected_websockets g1) g1 of
                  (Some exc, g2) \<Rightarrow> except_DecodeError data exc g2
                | (None, g2) \<Rightarrow> (None, g2))))"

subsection \<open>\<^verbatim>\<open>connect_ble\<close> and \<^verbatim>\<open>connect_endpoint\<close>\<close>

text \<open>What the four awaited calls of one \<^verbatim>\<open>connect_ble\<close> do: return or raise.\<close>

record ble_env =
  stop_notify_raises :: "exn option"
  disconnect_raises :: "exn option"
  connect_raises :: "exn option"
  start_notify_raises :: "exn option"

text \<open>
  The block under \<^verbatim>\<open># Disconnect existing client if any\<close>:
  \<^verbatim>\<open>if ble_client and ble_client.is_connected\<close>, then \<^verbatim>\<open>stop_notify\<close> and
  \<^verbatim>\<open>disconnect\<close>, with nothing around them to catch what they raise.
\<close>

definition disconnect_existing :: "ble_env \<Rightarrow> state \<Rightarrow> exn option \<times> state" where
  "disconnect_existing env g =
     (case ble_client g of
        None \<Rightarrow> (None, g)
      | Some c \<Rightarrow>
          if is_connected (heap g ! c) then
            (case stop_notify_raises env of
               Some e \<Rightarrow> (Some e, perform (StopNotify c) (Some e) g)
             | None \<Rightarrow>
                 let g1 = perform (StopNotify c) None g in
                 (case disconnect_raises env of
                    Some e \<Rightarrow> (Some e, perform (Disconnect c) (Some e) g1)
                  | None \<Rightarrow> (None, perform (Disconnect c) None g1)))
          else (None, g))"

definition connect_ble :: "ble_env \<Rightarrow> string \<Rightarrow> state \<Rightarrow> (exn + bool) \<times> state" where
  "connect_ble env addr g =
     (case disconnect_existing env g of
        (Some e, g1) \<Rightarrow> (Inl e, g1)
      | (None, g1) \<Rightarrow>
          let c = length (heap g1);
              g2 = (perform (NewClient addr) None g1)\<lparr>ble_client := Some c\<rparr> in
          (case connect_raises env of
             Some e \<Rightarrow> (Inl e, perform (Connect c) (Some e) g2)
           | None \<Rightarrow>
               let g3 = perform (Connect c) None g2 in
               (case start_notify_raises env of
                  Some e \<Rightarrow> (Inl e, perform (StartNotify c) (Some e) g3)
                | None \<Rightarrow> (Inr True, perform (StartNotify c) None g3))))"

text \<open>\<^verbatim>\<open>except Exception as e\<close> turns the exception into a response; others go on.\<close>

definition connect_endpoint :: "ble_env \<Rightarrow> string \<Rightarrow> state \<Rightarrow> (exn + dict) \<times> state" where
  "connect_endpoint env addr g =
     (case connect_ble env addr g of
        (Inr ok, g1) \<Rightarrow> (Inr [(''success'', JBool True), (''address'', JStr addr)], g1)
      | (Inl e, g1) \<Rightarrow>
          if is_Exception e
          then (Inr [(''success'', JBool False), (''error'', JStr (str e))], g1)
          else (Inl e, g1))"

subsection \<open>\<^verbatim>\<open>scan_devices\<close>\<close>

text \<open>
  \<^verbatim>\<open>device.name or "Unknown"\<close>: \<^verbatim>\<open>None\<close> and the empty string give the default.
\<close>

fun name_or_Unknown :: "string option \<Rightarrow> string" where
  "name_or_Unknown None = ''Unknown''"
| "name_or_Unknown (Some n) = (if n = [] then ''Unknown'' else n)"

text \<open>
  The closure \<^verbatim>\<open>detection_callback\<close>: its local \<^verbatim>\<open>found_addresses\<close> travels with
  the state.
\<close>

definition detection_callback ::
  "BLEDevice \<times> AdvertisementData \<Rightarrow> string set \<times> state \<Rightarrow> string set \<times> state" where
  "detection_callback da fg =
     (case (da, fg) of ((device, advertisement), (found_addresses, g)) \<Rightarrow>
        if address device \<notin> found_addresses \<and> name device = Some ''Ooni_DT_Hub''
        then (insert (address device) found_addresses,
              g\<lparr>discovered_devices := discovered_devices g @
                   [[(''address'', JStr (address device)),
                     (''name'', JStr (name_or_Unknown (name device))),
                     (''rssi'', JInt (rssi advertisement))]]\<rparr>)
        else (found_addresses, g))"

text \<open>
  What one scan meets: whether building, starting and stopping the scanner raise, and
  the advertisements the scanner hands to the callback while it runs.
\<close>

record scan_env =
  scanner_raises :: "exn option"
  start_raises :: "exn option"
  advertisements :: "(BLEDevice \<times> AdvertisementData) list"
  stop_raises :: "exn option"

definition except_scan :: "exn \<Rightarrow> state \<Rightarrow> (exn + dict) \<times> state" where
  "except_scan e g =
     (if is_Exception e
      then (Inr [(''success'', JBool False), (''error'', JStr (str e))], g\<lparr>scanning := False\<rparr>)
      else (Inl e, g))"

definition scan_devices :: "scan_env \<Rightarrow> state \<Rightarrow> (exn + dict) \<times> state" where
  "scan_devices env g =
     (if scanning g
      then (Inr [(''success'', JBool False), (''error'', JStr ''Scan already in progress'')], g)
      else
        let g1 = g\<lparr>scanning := True, discovered_devices := []\<rparr> in
        (case scanner_raises env of
           Some e \<Rightarrow> except_scan e (perform NewScanner (Some e) g1)
         | None \<Rightarrow>
             let g2 = perform NewScanner None g1 in
             (case start_raises env of
                Some e \<Rightarrow> except_scan e (perform ScannerStart (Some e) g2)
              | None \<Rightarrow>
                  let g3 = perform ScannerStart None g2;
                      g4 = snd (fold detection_callback (advertisements env) ({}, g3));
                      g5 = perform (Sleep 5) None g4 in
                  (case stop_raises env of
                     Some e \<Rightarrow> except_scan e (perform ScannerStop (Some e) g5)
                   | None \<Rightarrow>
                       let g6 = perform ScannerStop None g5 in
                       (Inr [(''success'', JBool True),
                             (''devices'', JList (map JDict (discovered_devices g6)))],
                        g6\<lparr>scanning := False\<rparr>)))))"

subsection \<open>\<^verbatim>\<open>websocket_endpoint\<close>\<close>

text \<open>
  What one websocket session meets: whether \<^verbatim>\<open>accept\<close> and the \<^verbatim>\<open>send_json\<close> of the
  cached data raise, and what the calls of \<^verbatim>\<open>receive_text\<close> yield, one after another.
\<close>

datatype received = Text string | Raises exn

record ws_env =
  accept_raises :: "exn option"
  send_raises :: "exn option"
  receives :: "received list"

text \<open>
  The part of the handler before its \<^verbatim>\<open>try\<close>: accept, register, send the cached data.
  Nothing here catches an exception.
\<close>

definition websocket_open :: "ws_env \<Rightarrow> nat \<Rightarrow> state \<Rightarrow> exn option \<times> state" where
  "websocket_open env websocket g =
     (case accept_raises env of
        Some e \<Rightarrow> (Some e, g)
      | None \<Rightarrow>
          let g1 = g\<lparr>connected_websockets := connected_websockets g @ [websocket]\<rparr> in
          if truthy (current_data g1) then
            (case send_raises env of
               Some e \<Rightarrow> (Some e, g1)
             | None \<Rightarrow> (None, g1\<lparr>sent := sent g1 @ [(websocket, current_data g1)]\<rparr>))
          else (None, g1))"

text \<open>
  \<^verbatim>\<open>while True: await websocket.receive_text()\<close> ends only when a receive raises. On a
  script with no raise the loop is still waiting: \<open>None\<close>.
\<close>

fun keep_alive :: "received list \<Rightarrow> exn option" where
  "keep_alive [] = None"
| "keep_alive (Text t # rs) = keep_alive rs"
| "keep_alive (Raises e # rs) = Some e"

text \<open>
  The two \<^verbatim>\<open>except\<close> clauses. They run when the receive raises, on the state as it
  is then: other tasks ran while the handler waited.
\<close>

definition websocket_except :: "exn \<Rightarrow> nat \<Rightarrow> state \<Rightarrow> exn option \<times> state" where
  "websocket_except e websocket g =
     (case e of
        WebSocketDisconnect m \<Rightarrow>
          (None,
           if websocket \<in> set (connected_websockets g)
           then g\<lparr>connected_websockets := remove1 websocket (connected_websockets g)\<rparr>
           else g)
      | BaseException m \<Rightarrow> (Some e, g)
      | _ \<Rightarrow>
          let g1 = print (''WebSocket error: '' @ str e) g in
          (None,
           if websocket \<in> set (connected_websockets g1)
           then g1\<lparr>connected_websockets := remove1 websocket (connected_websockets g1)\<rparr>
           else g1))"

text \<open>
  The whole handler when no other task runs meanwhile. The outer \<open>None\<close>: the handler
  has not returned.
\<close>

definition websocket_endpoint :: "ws_env \<Rightarrow> nat \<Rightarrow> state \<Rightarrow> (exn option \<times> state) option" where
  "websocket_endpoint env websocket g =
     (case websocket_open env websocket g of
        (Some e, g1) \<Rightarrow> Some (Some e, g1)
      | (None, g1) \<Rightarrow>
          (case keep_alive (receives env) of
             None \<Rightarrow> None
           | Some e \<Rightarrow> Some (websocket_except e websocket g1)))"

subsection \<open>Notions the properties are stated with\<close>

text \<open>The two decoding steps of \<^verbatim>\<open>notify_data\<close> in a row: the packet, or what was raised.\<close>

definition decoded ::
  "(8 word list \<Rightarrow> exn + 'p) \<Rightarrow> ('p \<Rightarrow> exn + PacketNotify) \<Rightarrow> 8 word list \<Rightarrow>
   exn + PacketNotify" where
  "decoded dc dp data = (case dc data of Inl e \<Rightarrow> Inl e | Inr pd \<Rightarrow> dp pd)"

text \<open>The sockets of a list whose \<^verbatim>\<open>send_json\<close> returns.\<close>

definition delivered :: "(nat \<Rightarrow> exn option) \<Rightarrow> nat list \<Rightarrow> nat list" where
  "delivered send wss = filter (\<lambda>w. send w = None) wss"

text \<open>Notifications handled one after another, each with its own behaviour of the sockets.\<close>

definition notify_all ::
  "(8 word list \<Rightarrow> exn + 'p) \<Rightarrow> ('p \<Rightarrow> exn + PacketNotify) \<Rightarrow>
   ((nat \<Rightarrow> exn option) \<times> 8 word list) list \<Rightarrow> state \<Rightarrow> state" where
  "notify_all dc dp ns g = fold (\<lambda>(send, data) g. snd (notify_data dc dp send data g)) ns g"

text \<open>The packets of the notifications that decode, in arrival order.\<close>

definition decoded_packets ::
  "(8 word list \<Rightarrow> exn + 'p) \<Rightarrow> ('p \<Rightarrow> exn + PacketNotify) \<Rightarrow> 8 word list list \<Rightarrow>
   PacketNotify list" where
  "decoded_packets dc dp datas =
     List.map_filter (\<lambda>data. case decoded dc dp data of Inl e \<Rightarrow> None | Inr p \<Rightarrow> Some p) datas"

text \<open>The dictionary that \<^verbatim>\<open>detection_callback\<close> appends for an advertisement.\<close>

definition entry :: "BLEDevice \<times> AdvertisementData \<Rightarrow> dict" where
  "entry da =
     [(''address'', JStr (address (fst da))),
      (''name'', JStr (name_or_Unknown (name (fst da)))),
      (''rssi'', JInt (rssi (snd da)))]"

text \<open>
  The advertisements the callback accepts, in arrival order, when the addresses in
  \<open>found\<close> have been seen before: those with the product name whose address is new.
\<close>

fun first_seen ::
  "string set \<Rightarrow> (BLEDevice \<times> AdvertisementData) list \<Rightarrow> (BLEDevice \<times> AdvertisementData) list" where
  "first_seen found [] = []"
| "first_seen found (da # rest) =
     (if address (fst da) \<notin> found \<and> name (fst da) = Some ''Ooni_DT_Hub''
      then da # first_seen (insert (address (fst da)) found) rest
      else first_seen found rest)"

text \<open>The entries of a result list that carry a given address.\<close>

definition entries_of :: "string \<Rightarrow> dict list \<Rightarrow> dict list" where
  "entries_of a devices = filter (\<lambda>d. map_of d ''address'' = Some (JStr a)) devices"

text \<open>The calls a coroutine added to the trace.\<close>

definition calls_since :: "state \<Rightarrow> state \<Rightarrow> event list" where
  "calls_since g g' = drop (length (trace g)) (trace g')"

subsection \<open>Sample decoders and sockets for the examples\<close>

text \<open>
  Stand-ins for the two decoders, used only to run the examples: a marker byte
  \<open>2\<close> in front of a one-byte payload that holds the battery level.
\<close>

definition sample_characteristic :: "8 word list \<Rightarrow> exn + 8 word list" where
  "sample_characteristic data =
     (case data of
        [] \<Rightarrow> Inl (DecodeError ''empty'')
      | marker # payload \<Rightarrow> if marker = 2 then Inr payload else Inl (DecodeError ''marker''))"

definition sample_packet :: "8 word list \<Rightarrow> exn + PacketNotify" where
  "sample_packet payload =
     (case payload of
        [b] \<Rightarrow> Inr \<lparr>battery = uint b, ambient_a = 0, ambient_b = 0, probe_p1 = 0, probe_p2 = 0,
                 probe_p1_connected = False, probe_p2_connected = False, eco_mode = False,
                 temperature_unit = TemperatureUnit ''C''\<rparr>
      | _ \<Rightarrow> Inl (DecodeError ''length''))"

text \<open>Socket \<open>2\<close> is closed, every other socket takes the message.\<close>

definition sample_send :: "nat \<Rightarrow> exn option" where
  "sample_send ws = (if ws = 2 then Some (Exception ''closed'') else None)"

text \<open>
  While the send to socket \<open>1\<close> waits, socket \<open>2\<close> disconnects and its session handler
  runs its \<^verbatim>\<open>except WebSocketDisconnect\<close> clause.
\<close>

definition sample_meanwhile :: "nat \<Rightarrow> state \<Rightarrow> state" where
  "sample_meanwhile ws g =
     (if ws = 1 then snd (websocket_except (WebSocketDisconnect ''1001'') 2 g) else g)"

text \<open>
  A stand-in for the packet decoder that fills every field from the payload: five
  one-byte readings, a byte of flags and a byte for the unit.
\<close>

definition sample_reading :: "8 word list \<Rightarrow> exn + PacketNotify" where
  "sample_reading payload =
     (case payload of
        [b, a1, a2, p1, p2, flags, u] \<Rightarrow>
          Inr \<lparr>battery = uint b, ambient_a = uint a1, ambient_b = uint a2,
               probe_p1 = uint p1, probe_p2 = uint p2,
               probe_p1_connected = odd (unat flags),
               probe_p2_connected = odd (unat flags div 2),
               eco_mode = odd (unat flags div 4),
               temperature_unit = TemperatureUnit (if u = 0 then ''C'' else ''F'')\<rparr>
      | _ \<Rightarrow> Inl (DecodeError ''length''))"

text \<open>The calls that belong to a new link: building its client, connecting, subscribing.\<close>

fun opens_link :: "call \<Rightarrow> bool" where
  "opens_link (NewClient a) = True"
| "opens_link (Connect r) = True"
| "opens_link (StartNotify r) = True"
| "opens_link c = False"

text \<open>
  What ends the teardown of the old link, if anything: the exception of \<^verbatim>\<open>stop_notify\<close>,
  else that of \<^verbatim>\<open>disconnect\<close>. Likewise for the new link: the exception of
  \<^verbatim>\<open>connect\<close>, else that of \<^verbatim>\<open>start_notify\<close>.
\<close>

definition teardown_error :: "ble_env \<Rightarrow> exn option" where
  "teardown_error env =
     (case stop_notify_raises env of Some e \<Rightarrow> Some e | None \<Rightarrow> disconnect_raises env)"

definition attempt_error :: "ble_env \<Rightarrow> exn option" where
  "attempt_error env =
     (case connect_raises env of Some e \<Rightarrow> Some e | None \<Rightarrow> start_notify_raises env)"

text \<open>A Bluetooth stack where every call returns, and the state after connecting on it.\<close>

definition all_return :: ble_env where
  "all_return = \<lparr>stop_notify_raises = None, disconnect_raises = None, connect_raises = None,
     start_notify_raises = None\<rparr>"

definition sample_connected :: state where
  "sample_connected = snd (connect_ble all_return ''AA:01'' initial)"

text \<open>
  A scan that meets four advertisements: two devices with the product name, the first
  of them heard twice with different signal strength, and a device with another name.
\<close>

definition sample_scan :: scan_env where
  "sample_scan =
     \<lparr>scanner_raises = None, start_raises = None,
      advertisements =
        [(\<lparr>address = ''AA:01'', name = Some ''Ooni_DT_Hub''\<rparr>, \<lparr>rssi = - 70\<rparr>),
         (\<lparr>address = ''BB:02'', name = Some ''Ooni_DT_Hub''\<rparr>, \<lparr>rssi = - 40\<rparr>),
         (\<lparr>address = ''AA:01'', name = Some ''Ooni_DT_Hub''\<rparr>, \<lparr>rssi = - 55\<rparr>),
         (\<lparr>address = ''CC:03'', name = Some ''Grill''\<rparr>, \<lparr>rssi = - 30\<rparr>)],
      stop_raises = None\<rparr>"

section \<open>Properties\<close>

subsection \<open>The broadcast loop\<close>

text \<open>
  The loop invariant: the global list is the sockets already served that took the
  message, followed by the sockets still to serve.
\<close>

lemma send_all_split:
  "connected_websockets g = kept @ rest \<Longrightarrow> \<forall>w\<in>set kept. send w = None \<Longrightarrow>
   send_all send rest g =
     (None, g\<lparr>connected_websockets := kept @ delivered send rest,
              sent := sent g @ map (\<lambda>w. (w, current_data g)) (delivered send rest)\<rparr>)"
proof (induction rest arbitrary: g kept)
  case Nil
  then show ?case by (simp add: delivered_def)
next
  case (Cons w rest)
  show ?case
  proof (cases "send w")
    case None
    let ?g = "g\<lparr>sent := sent g @ [(w, current_data g)]\<rparr>"
    have "connected_websockets ?g = (kept @ [w]) @ rest"
      using Cons.prems by simp
    moreover have "\<forall>v\<in>set (kept @ [w]). send v = None"
      using Cons.prems None by simp
    ultimately have "send_all send rest ?g =
        (None, ?g\<lparr>connected_websockets := (kept @ [w]) @ delivered send rest,
                  sent := sent ?g @ map (\<lambda>w. (w, current_data ?g)) (delivered send rest)\<rparr>)"
      by (rule Cons.IH)
    then show ?thesis using None by (simp add: delivered_def)
  next
    case (Some e)
    have notin: "w \<notin> set kept"
      using Cons.prems Some by auto
    let ?g = "g\<lparr>connected_websockets := remove1 w (connected_websockets g)\<rparr>"
    have "connected_websockets ?g = kept @ rest"
      using Cons.prems notin by (simp add: remove1_append)
    then have "send_all send rest ?g =
        (None, ?g\<lparr>connected_websockets := kept @ delivered send rest,
                  sent := sent ?g @ map (\<lambda>w. (w, current_data ?g)) (delivered send rest)\<rparr>)"
      using Cons.prems by (intro Cons.IH) auto
    then show ?thesis using Some Cons.prems by (simp add: delivered_def)
  qed
qed

lemma send_all_registry:
  "send_all send (connected_websockets g) g =
     (None, g\<lparr>connected_websockets := delivered send (connected_websockets g),
              sent := sent g @
                map (\<lambda>w. (w, current_data g)) (delivered send (connected_websockets g))\<rparr>)"
  using send_all_split [of g "[]" "connected_websockets g" send] by simp

subsection \<open>\<^verbatim>\<open>notify_data\<close>, by the outcome of decoding\<close>

lemma notify_data_decoded_ok:
  assumes "decoded dc dp data = Inr packet"
  shows "notify_data dc dp send data g =
     (None, g\<lparr>current_data := Some (telemetry packet),
              connected_websockets := delivered send (connected_websockets g),
              sent := sent g @ map (\<lambda>w. (w, Some (telemetry packet)))
                               (delivered send (connected_websockets g))\<rparr>)"
proof -
  obtain pd where pd: "dc data = Inr pd" "dp pd = Inr packet"
    using assms by (auto simp: decoded_def split: sum.splits)
  let ?g1 = "g\<lparr>current_data := Some (telemetry packet)\<rparr>"
  have "send_all send (connected_websockets ?g1) ?g1 =
      (None, ?g1\<lparr>connected_websockets := delivered send (connected_websockets ?g1),
                sent := sent ?g1 @ map (\<lambda>w. (w, current_data ?g1))
                                     (delivered send (connected_websockets ?g1))\<rparr>)"
    by (rule send_all_registry)
  then show ?thesis using pd by (simp add: notify_data_def Let_def)
qed

lemma notify_data_decoded_err:
  assumes "decoded dc dp data = Inl e"
  shows "notify_data dc dp send data g = except_DecodeError data e g"
  using assms by (auto simp: decoded_def notify_data_def split: sum.splits)

lemma except_DecodeError_DecodeError:
  "except_DecodeError data (DecodeError m) g =
     (None, print (''Failed to decode: '' @ hex data @ '' with error '' @ m) g)"
  by (simp add: except_DecodeError_def)

lemma current_data_except_DecodeError:
  "current_data (snd (except_DecodeError data e g)) = current_data g"
  by (cases e) (simp_all add: except_DecodeError_def print_def)

text \<open>
  C5. When decoding a notification raises \<open>DecodeError\<close>, \<^verbatim>\<open>notify_data\<close> returns
  normally, and the only change is one printed line that holds the payload in hex and the
  error. The client, its link, the calls on the Bluetooth stack and the registered
  sockets are as before, and a later notification that decodes is handled in full: it
  returns, becomes the cached data, and goes to every socket that takes it.
\<close>

theorem notify_data_absorbs_DecodeError:
  assumes "decoded dc dp data = Inl (DecodeError m)"
  shows "notify_data dc dp send data g =
           (None, print (''Failed to decode: '' @ hex data @ '' with error '' @ m) g)
       \<and> ble_client (snd (notify_data dc dp send data g)) = ble_client g
       \<and> heap (snd (notify_data dc dp send data g)) = heap g
       \<and> trace (snd (notify_data dc dp send data g)) = trace g
       \<and> connected_websockets (snd (notify_data dc dp send data g)) = connected_websockets g
       \<and> (\<forall>data' p send'. decoded dc dp data' = Inr p \<longrightarrow>
            fst (notify_data dc dp send' data' (snd (notify_data dc dp send data g))) = None
          \<and> current_data (snd (notify_data dc dp send' data' (snd (notify_data dc dp send data g))))
              = Some (telemetry p)
          \<and> sent (snd (notify_data dc dp send' data' (snd (notify_data dc dp send data g))))
              = sent g @ map (\<lambda>w. (w, Some (telemetry p)))
                           (delivered send' (connected_websockets g)))"
proof -
  have r: "notify_data dc dp send data g =
           (None, print (''Failed to decode: '' @ hex data @ '' with error '' @ m) g)"
    using notify_data_decoded_err [OF assms] by (simp add: except_DecodeError_DecodeError)
  show ?thesis
    unfolding r by (simp add: print_def notify_data_decoded_ok)
qed

theorem notify_data_absorbs_DecodeError_witness:
  "decoded sample_characteristic sample_packet [7, 100] = Inl (DecodeError ''marker'')
   \<and> notify_data sample_characteristic sample_packet sample_send [7, 100]
        (initial\<lparr>connected_websockets := [1, 2]\<rparr>)
      = (None, initial\<lparr>connected_websockets := [1, 2],
                 stdout := [''Failed to decode: 0764 with error marker'']\<rparr>)"
proof -
  have d: "decoded sample_characteristic sample_packet [7, 100] = Inl (DecodeError ''marker'')"
    by (simp add: decoded_def sample_characteristic_def)
  have h: "hex [7, 100] = ''0764''"
    by (simp add: hex_def hex_byte_def hex_digit_def)
  from notify_data_absorbs_DecodeError
         [OF d, of sample_send "initial\<lparr>connected_websockets := [1, 2]\<rparr>"]
  show ?thesis using d
    by (simp add: h print_def initial_def)
qed

lemma delivered_one_fails:
  assumes "distinct wss" "send w \<noteq> None" "\<forall>v\<in>set wss. v \<noteq> w \<longrightarrow> send v = None"
  shows "delivered send wss = remove1 w wss"
proof -
  have "filter (\<lambda>v. send v = None) wss = filter (\<lambda>v. w \<noteq> v) wss"
    using assms(2,3) by (intro filter_cong) auto
  also have "\<dots> = removeAll w wss" by (simp add: removeAll_filter_not_eq)
  also have "\<dots> = remove1 w wss" using assms(1) by (simp add: distinct_remove1_removeAll)
  finally show ?thesis by (simp add: delivered_def)
qed

text \<open>
  When no other task runs during the loop: a notification decodes and is broadcast to
  the registered sockets, and the send to one of them, \<open>w\<close>, raises while the other
  sends return. Then \<^verbatim>\<open>notify_data\<close> returns without raising, \<open>w\<close> is gone from the
  registry, the other \<open>N - 1\<close> sockets stay registered in their order, and each of them
  got the record, once.
\<close>

lemma broadcast_prunes_failed_subscriber:
  assumes "decoded dc dp data = Inr p"
    and "distinct (connected_websockets g)"
    and "w \<in> set (connected_websockets g)"
    and "send w = Some e"
    and "\<forall>v\<in>set (connected_websockets g). v \<noteq> w \<longrightarrow> send v = None"
  shows "fst (notify_data dc dp send data g) = None
       \<and> connected_websockets (snd (notify_data dc dp send data g))
           = remove1 w (connected_websockets g)
       \<and> w \<notin> set (connected_websockets (snd (notify_data dc dp send data g)))
       \<and> length (connected_websockets (snd (notify_data dc dp send data g)))
           = length (connected_websockets g) - 1
       \<and> sent (snd (notify_data dc dp send data g))
           = sent g @ map (\<lambda>v. (v, Some (telemetry p))) (remove1 w (connected_websockets g))"
proof -
  have d: "delivered send (connected_websockets g) = remove1 w (connected_websockets g)"
    using assms(2,4,5) by (intro delivered_one_fails) auto
  show ?thesis
    using assms(2,3) by (simp add: notify_data_decoded_ok [OF assms(1)] d length_remove1)
qed

lemma broadcast_prunes_failed_subscriber_example:
  "decoded sample_characteristic sample_packet [2, 100] =
     Inr \<lparr>battery = 100, ambient_a = 0, ambient_b = 0, probe_p1 = 0, probe_p2 = 0,
          probe_p1_connected = False, probe_p2_connected = False, eco_mode = False,
          temperature_unit = TemperatureUnit ''C''\<rparr>
   \<and> distinct [1, 2, 3 :: nat] \<and> sample_send 2 = Some (Exception ''closed'')
   \<and> sample_send 1 = None \<and> sample_send 3 = None
   \<and> fst (notify_data sample_characteristic sample_packet sample_send [2, 100]
        (initial\<lparr>connected_websockets := [1, 2, 3]\<rparr>)) = None
   \<and> connected_websockets (snd (notify_data sample_characteristic sample_packet sample_send
        [2, 100] (initial\<lparr>connected_websockets := [1, 2, 3]\<rparr>))) = [1, 3]
   \<and> map fst (sent (snd (notify_data sample_characteristic sample_packet sample_send
        [2, 100] (initial\<lparr>connected_websockets := [1, 2, 3]\<rparr>)))) = [1, 3]"
proof -
  let ?g = "initial\<lparr>connected_websockets := [1, 2, 3]\<rparr>"
  let ?p = "\<lparr>battery = 100, ambient_a = 0, ambient_b = 0, probe_p1 = 0, probe_p2 = 0,
            probe_p1_connected = False, probe_p2_connected = False, eco_mode = False,
            temperature_unit = TemperatureUnit ''C''\<rparr>"
  have d: "decoded sample_characteristic sample_packet [2, 100] = Inr ?p"
    by (simp add: decoded_def sample_characteristic_def sample_packet_def)
  have ws: "connected_websockets ?g = [1, 2, 3]" by simp
  have a: "distinct (connected_websockets ?g)" by simp
  have b: "2 \<in> set (connected_websockets ?g)" by simp
  have c: "sample_send 2 = Some (Exception ''closed'')" by (simp add: sample_send_def)
  have e: "\<forall>v\<in>set (connected_websockets ?g). v \<noteq> 2 \<longrightarrow> sample_send v = None"
    by (simp add: sample_send_def)
  have r: "remove1 2 [1, 2, 3 :: nat] = [1, 3]" by simp
  note t = broadcast_prunes_failed_subscriber [OF d a b c e, unfolded ws r]
  have "sent initial = []" by (simp add: initial_def)
  with t have m: "map fst (sent (snd (notify_data sample_characteristic sample_packet
        sample_send [2, 100] ?g))) = [1, 3]"
    by (simp add: comp_def)
  have f: "sample_send 1 = None" "sample_send 3 = None"
    by (simp_all add: sample_send_def)
  with t d c m show ?thesis by simp
qed

subsection \<open>The broadcast loop and a session that ends meanwhile\<close>

lemma send_all_awaiting_alone: "send_all_awaiting send (\<lambda>ws g. g) wss g = send_all send wss g"
  by (induction wss arbitrary: g) (simp_all add: Let_def split: option.splits)

lemma notify_data_awaiting_alone:
  "notify_data_awaiting dc dp send (\<lambda>ws g. g) data g = notify_data dc dp send data g"
  by (simp add: notify_data_awaiting_def notify_data_def send_all_awaiting_alone Let_def
      split: sum.splits)

text \<open>
  C3 fails on the code. Three sockets are registered and a notification decodes. While
  the send to socket \<open>1\<close> waits, socket \<open>2\<close> disconnects and its session handler removes
  it from the registry, behind its membership check. The send to socket \<open>2\<close> then raises,
  the loop calls \<^verbatim>\<open>connected_websockets.remove\<close> with no such check, and \<open>ValueError\<close>
  leaves \<^verbatim>\<open>notify_data\<close>: the broadcast raises to its caller, and socket \<open>3\<close>, still
  registered and able to take the message, gets nothing.
\<close>

theorem broadcast_raises_after_concurrent_prune:
  "sample_send 1 = None \<and> sample_send 2 = Some (Exception ''closed'') \<and> sample_send 3 = None
   \<and> fst (notify_data_awaiting sample_characteristic sample_packet sample_send sample_meanwhile
        [2, 100] (initial\<lparr>connected_websockets := [1, 2, 3]\<rparr>))
       = Some (ValueError ''list.remove(x): x not in list'')
   \<and> connected_websockets (snd (notify_data_awaiting sample_characteristic sample_packet
        sample_send sample_meanwhile [2, 100] (initial\<lparr>connected_websockets := [1, 2, 3]\<rparr>)))
       = [1, 3]
   \<and> map fst (sent (snd (notify_data_awaiting sample_characteristic sample_packet
        sample_send sample_meanwhile [2, 100] (initial\<lparr>connected_websockets := [1, 2, 3]\<rparr>))))
       = [1]"
  by (simp add: notify_data_awaiting_def sample_characteristic_def sample_packet_def
      sample_send_def sample_meanwhile_def websocket_except_def except_DecodeError_def
      initial_def Let_def)

subsection \<open>The cached data\<close>

lemma current_data_notify_data:
  "current_data (snd (notify_data dc dp send data g)) =
     (case decoded dc dp data of Inl e \<Rightarrow> current_data g | Inr p \<Rightarrow> Some (telemetry p))"
proof (cases "decoded dc dp data")
  case (Inl e)
  then show ?thesis by (simp add: notify_data_decoded_err current_data_except_DecodeError)
next
  case (Inr p)
  then show ?thesis by (simp add: notify_data_decoded_ok)
qed

lemma current_data_notify_all:
  "current_data (notify_all dc dp ns g) =
     (if decoded_packets dc dp (map snd ns) = [] then current_data g
      else Some (telemetry (last (decoded_packets dc dp (map snd ns)))))"
proof (induction ns arbitrary: g)
  case Nil
  then show ?case by (simp add: notify_all_def decoded_packets_def)
next
  case (Cons n ns)
  obtain send data where n: "n = (send, data)" by (cases n)
  have step: "notify_all dc dp (n # ns) g = notify_all dc dp ns (snd (notify_data dc dp send data g))"
    by (simp add: notify_all_def n)
  show ?case
  proof (cases "decoded dc dp data")
    case (Inl e)
    then have "decoded_packets dc dp (map snd (n # ns)) = decoded_packets dc dp (map snd ns)"
      by (simp add: decoded_packets_def n)
    then show ?thesis using Inl by (simp add: step Cons.IH current_data_notify_data)
  next
    case (Inr p)
    then have "decoded_packets dc dp (map snd (n # ns)) = p # decoded_packets dc dp (map snd ns)"
      by (simp add: decoded_packets_def n)
    then show ?thesis using Inr by (simp add: step Cons.IH current_data_notify_data)
  qed
qed

text \<open>
  C6. The cache is one optional dictionary. A notification that fails to decode, with
  whatever exception, leaves it as it was. A notification that decodes replaces it by
  the dictionary that holds each of the nine fields of the new packet under its key, and
  every message this call sends carries that dictionary, so the cache is replaced before
  any delivery. After any run of notifications the cache holds the fields of the last
  packet that decoded, or is unchanged when none did.
\<close>

theorem current_data_is_last_decoded:
  "(\<forall>e. decoded dc dp data = Inl e \<longrightarrow>
       current_data (snd (notify_data dc dp send data g)) = current_data g)
   \<and> (\<forall>p. decoded dc dp data = Inr p \<longrightarrow>
       current_data (snd (notify_data dc dp send data g)) =
         Some [(''battery'', JInt (battery p)),
               (''ambient_a'', JInt (ambient_a p)),
               (''ambient_b'', JInt (ambient_b p)),
               (''probe_p1'', JInt (probe_p1 p)),
               (''probe_p2'', JInt (probe_p2 p)),
               (''probe_p1_connected'', JBool (probe_p1_connected p)),
               (''probe_p2_connected'', JBool (probe_p2_connected p)),
               (''eco_mode'', JBool (eco_mode p)),
               (''temperature_unit'', JStr (unit_value (temperature_unit p)))]
       \<and> (\<forall>m \<in> set (drop (length (sent g)) (sent (snd (notify_data dc dp send data g)))).
            snd m =
         Some [(''battery'', JInt (battery p)),
               (''ambient_a'', JInt (ambient_a p)),
               (''ambient_b'', JInt (ambient_b p)),
               (''probe_p1'', JInt (probe_p1 p)),
               (''probe_p2'', JInt (probe_p2 p)),
               (''probe_p1_connected'', JBool (probe_p1_connected p)),
               (''probe_p2_connected'', JBool (probe_p2_connected p)),
               (''eco_mode'', JBool (eco_mode p)),
               (''temperature_unit'', JStr (unit_value (temperature_unit p)))]))
   \<and> (decoded_packets dc dp (map snd ns) = [] \<longrightarrow>
        current_data (notify_all dc dp ns g) = current_data g)
   \<and> (\<forall>q. decoded_packets dc dp (map snd ns) \<noteq> []
            \<and> last (decoded_packets dc dp (map snd ns)) = q \<longrightarrow>
        current_data (notify_all dc dp ns g) =
         Some [(''battery'', JInt (battery q)),
               (''ambient_a'', JInt (ambient_a q)),
               (''ambient_b'', JInt (ambient_b q)),
               (''probe_p1'', JInt (probe_p1 q)),
               (''probe_p2'', JInt (probe_p2 q)),
               (''probe_p1_connected'', JBool (probe_p1_connected q)),
               (''probe_p2_connected'', JBool (probe_p2_connected q)),
               (''eco_mode'', JBool (eco_mode q)),
               (''temperature_unit'', JStr (unit_value (temperature_unit q)))])"
proof (intro conjI allI impI)
  fix e assume "decoded dc dp data = Inl e"
  then show "current_data (snd (notify_data dc dp send data g)) = current_data g"
    by (simp add: current_data_notify_data)
next
  fix p assume p: "decoded dc dp data = Inr p"
  then show "current_data (snd (notify_data dc dp send data g)) =
         Some [(''battery'', JInt (battery p)),
               (''ambient_a'', JInt (ambient_a p)),
               (''ambient_b'', JInt (ambient_b p)),
               (''probe_p1'', JInt (probe_p1 p)),
               (''probe_p2'', JInt (probe_p2 p)),
               (''probe_p1_connected'', JBool (probe_p1_connected p)),
               (''probe_p2_connected'', JBool (probe_p2_connected p)),
               (''eco_mode'', JBool (eco_mode p)),
               (''temperature_unit'', JStr (unit_value (temperature_unit p)))]"
    by (simp add: current_data_notify_data telemetry_def)
  show "\<forall>m \<in> set (drop (length (sent g)) (sent (snd (notify_data dc dp send data g)))).
            snd m =
         Some [(''battery'', JInt (battery p)),
               (''ambient_a'', JInt (ambient_a p)),
               (''ambient_b'', JInt (ambient_b p)),
               (''probe_p1'', JInt (probe_p1 p)),
               (''probe_p2'', JInt (probe_p2 p)),
               (''probe_p1_connected'', JBool (probe_p1_connected p)),
               (''probe_p2_connected'', JBool (probe_p2_connected p)),
               (''eco_mode'', JBool (eco_mode p)),
               (''temperature_unit'', JStr (unit_value (temperature_unit p)))]"
    by (auto simp: notify_data_decoded_ok [OF p] telemetry_def)
next
  assume "decoded_packets dc dp (map snd ns) = []"
  then show "current_data (notify_all dc dp ns g) = current_data g"
    by (simp add: current_data_notify_all)
next
  fix q
  assume "decoded_packets dc dp (map snd ns) \<noteq> []
            \<and> last (decoded_packets dc dp (map snd ns)) = q"
  then show "current_data (notify_all dc dp ns g) =
         Some [(''battery'', JInt (battery q)),
               (''ambient_a'', JInt (ambient_a q)),
               (''ambient_b'', JInt (ambient_b q)),
               (''probe_p1'', JInt (probe_p1 q)),
               (''probe_p2'', JInt (probe_p2 q)),
               (''probe_p1_connected'', JBool (probe_p1_connected q)),
               (''probe_p2_connected'', JBool (probe_p2_connected q)),
               (''eco_mode'', JBool (eco_mode q)),
               (''temperature_unit'', JStr (unit_value (temperature_unit q)))]"
    by (simp add: current_data_notify_all telemetry_def)
qed

lemma sample_reading_example:
  "decoded sample_characteristic sample_reading [2, 100, 21, 23, 22, 0, 5, 1] =
     Inr \<lparr>battery = 100, ambient_a = 21, ambient_b = 23, probe_p1 = 22, probe_p2 = 0,
          probe_p1_connected = True, probe_p2_connected = False, eco_mode = True,
          temperature_unit = TemperatureUnit ''F''\<rparr>"
  by (simp add: decoded_def sample_characteristic_def sample_reading_def)

theorem current_data_is_last_decoded_witness:
  "decoded sample_characteristic sample_reading [7, 100] = Inl (DecodeError ''marker'')
   \<and> decoded sample_characteristic sample_reading [2, 100, 21, 23, 22, 0, 5, 1] =
       Inr \<lparr>battery = 100, ambient_a = 21, ambient_b = 23, probe_p1 = 22, probe_p2 = 0,
            probe_p1_connected = True, probe_p2_connected = False, eco_mode = True,
            temperature_unit = TemperatureUnit ''F''\<rparr>
   \<and> current_data (snd (notify_data sample_characteristic sample_reading sample_send [7, 100]
        (initial\<lparr>connected_websockets := [1, 2]\<rparr>))) = None
   \<and> current_data (snd (notify_data sample_characteristic sample_reading sample_send
        [2, 100, 21, 23, 22, 0, 5, 1] (initial\<lparr>connected_websockets := [1, 2]\<rparr>)))
       = Some [(''battery'', JInt 100), (''ambient_a'', JInt 21), (''ambient_b'', JInt 23),
               (''probe_p1'', JInt 22), (''probe_p2'', JInt 0),
               (''probe_p1_connected'', JBool True), (''probe_p2_connected'', JBool False),
               (''eco_mode'', JBool True), (''temperature_unit'', JStr ''F'')]
   \<and> sent (snd (notify_data sample_characteristic sample_reading sample_send
        [2, 100, 21, 23, 22, 0, 5, 1] (initial\<lparr>connected_websockets := [1, 2]\<rparr>)))
       = [(1, Some [(''battery'', JInt 100), (''ambient_a'', JInt 21), (''ambient_b'', JInt 23),
               (''probe_p1'', JInt 22), (''probe_p2'', JInt 0),
               (''probe_p1_connected'', JBool True), (''probe_p2_connected'', JBool False),
               (''eco_mode'', JBool True), (''temperature_unit'', JStr ''F'')])]
   \<and> current_data (notify_all sample_characteristic sample_reading
        [(sample_send, [2, 100, 21, 23, 22, 0, 5, 1]), (sample_send, [7, 100])]
        (initial\<lparr>connected_websockets := [1, 2]\<rparr>))
       = Some [(''battery'', JInt 100), (''ambient_a'', JInt 21), (''ambient_b'', JInt 23),
               (''probe_p1'', JInt 22), (''probe_p2'', JInt 0),
               (''probe_p1_connected'', JBool True), (''probe_p2_connected'', JBool False),
               (''eco_mode'', JBool True), (''temperature_unit'', JStr ''F'')]"
proof -
  let ?g = "initial\<lparr>connected_websockets := [1, 2]\<rparr>"
  let ?good = "[2, 100, 21, 23, 22, 0, 5, 1] :: 8 word list"
  let ?p = "\<lparr>battery = 100, ambient_a = 21, ambient_b = 23, probe_p1 = 22, probe_p2 = 0,
            probe_p1_connected = True, probe_p2_connected = False, eco_mode = True,
            temperature_unit = TemperatureUnit ''F''\<rparr>"
  have bad: "decoded sample_characteristic sample_reading [7, 100] = Inl (DecodeError ''marker'')"
    by (simp add: decoded_def sample_characteristic_def)
  have good: "decoded sample_characteristic sample_reading ?good = Inr ?p"
    by (rule sample_reading_example)
  have ps: "decoded_packets sample_characteristic sample_reading (map snd
              [(sample_send, ?good), (sample_send, [7, 100])]) = [?p]"
    by (simp add: decoded_packets_def bad good)
  note one = current_data_is_last_decoded
      [of sample_characteristic sample_reading ?good sample_send ?g
          "[(sample_send, ?good), (sample_send, [7, 100])]"]
  note none = current_data_is_last_decoded
      [of sample_characteristic sample_reading "[7, 100]" sample_send ?g "[]"]
  have c0: "current_data (snd (notify_data sample_characteristic sample_reading sample_send
              [7, 100] ?g)) = None"
    using none bad by (simp add: initial_def)
  have c1: "current_data (snd (notify_data sample_characteristic sample_reading sample_send
              ?good ?g))
       = Some [(''battery'', JInt 100), (''ambient_a'', JInt 21), (''ambient_b'', JInt 23),
               (''probe_p1'', JInt 22), (''probe_p2'', JInt 0),
               (''probe_p1_connected'', JBool True), (''probe_p2_connected'', JBool False),
               (''eco_mode'', JBool True), (''temperature_unit'', JStr ''F'')]"
    using one good by simp
  have c2: "current_data (notify_all sample_characteristic sample_reading
        [(sample_send, ?good), (sample_send, [7, 100])] ?g)
       = Some [(''battery'', JInt 100), (''ambient_a'', JInt 21), (''ambient_b'', JInt 23),
               (''probe_p1'', JInt 22), (''probe_p2'', JInt 0),
               (''probe_p1_connected'', JBool True), (''probe_p2_connected'', JBool False),
               (''eco_mode'', JBool True), (''temperature_unit'', JStr ''F'')]"
    using one unfolding ps by simp
  have s: "sent (snd (notify_data sample_characteristic sample_reading sample_send ?good ?g))
       = [(1, Some [(''battery'', JInt 100), (''ambient_a'', JInt 21), (''ambient_b'', JInt 23),
               (''probe_p1'', JInt 22), (''probe_p2'', JInt 0),
               (''probe_p1_connected'', JBool True), (''probe_p2_connected'', JBool False),
               (''eco_mode'', JBool True), (''temperature_unit'', JStr ''F'')])]"
    by (simp add: notify_data_decoded_ok [OF good] delivered_def sample_send_def initial_def
        telemetry_def)
  from bad good c0 c1 c2 s show ?thesis by simp
qed

subsection \<open>\<^verbatim>\<open>websocket_endpoint\<close>\<close>









lemma websocket_except_registry:
  assumes "is_Exception e"
  shows "fst (websocket_except e ws g) = None"
    and "connected_websockets (snd (websocket_except e ws g)) = remove1 ws (connected_websockets g)"
  using assms by (cases e; simp add: websocket_except_def print_def Let_def remove1_idem)+

lemma keep_alive_script: "keep_alive (map Text ts @ Raises e # rest) = Some e"
  by (induction ts) simp_all

text \<open>
  C10. A receive of the keep-alive loop raises a disconnect or any other \<^verbatim>\<open>Exception\<close>.
  The \<^verbatim>\<open>except\<close> clause then returns without raising and leaves the registry without
  the socket: it removes the socket when it is registered, and changes nothing when the
  socket is already gone, as after a broadcast whose send to it failed. Run as a whole
  on a fresh socket whose receives yield any texts and then raise, the handler returns
  and the registry is as before the session.
\<close>

theorem session_end_unregisters:
  assumes "is_Exception e" and "distinct (connected_websockets g)"
  shows "fst (websocket_except e ws g) = None
       \<and> ws \<notin> set (connected_websockets (snd (websocket_except e ws g)))
       \<and> connected_websockets (snd (websocket_except e ws g)) = remove1 ws (connected_websockets g)
       \<and> (ws \<notin> set (connected_websockets g) \<longrightarrow>
            connected_websockets (snd (websocket_except e ws g)) = connected_websockets g)
       \<and> (\<forall>send data p x. decoded dc dp data = Inr p \<and> send ws = Some x \<longrightarrow>
            fst (websocket_except e ws (snd (notify_data dc dp send data g))) = None
          \<and> connected_websockets (snd (websocket_except e ws (snd (notify_data dc dp send data g))))
              = connected_websockets (snd (notify_data dc dp send data g)))
       \<and> (\<forall>env ts rest. receives env = map Text ts @ Raises e # rest
               \<and> accept_raises env = None \<and> send_raises env = None
               \<and> ws \<notin> set (connected_websockets g) \<longrightarrow>
            (\<exists>g'. websocket_endpoint env ws g = Some (None, g')
                 \<and> connected_websockets g' = connected_websockets g))"
proof (intro conjI allI impI)
  show "fst (websocket_except e ws g) = None"
    by (rule websocket_except_registry [OF assms(1)])
  show r: "connected_websockets (snd (websocket_except e ws g)) = remove1 ws (connected_websockets g)"
    by (rule websocket_except_registry [OF assms(1)])
  show "ws \<notin> set (connected_websockets (snd (websocket_except e ws g)))"
    using assms(2) by (simp add: r)
  show "connected_websockets (snd (websocket_except e ws g)) = connected_websockets g"
    if "ws \<notin> set (connected_websockets g)"
    using that by (simp add: r remove1_idem)
next
  fix send :: "nat \<Rightarrow> exn option" and data p x
  assume h: "decoded dc dp data = Inr p \<and> send ws = Some x"
  show "fst (websocket_except e ws (snd (notify_data dc dp send data g))) = None"
    by (rule websocket_except_registry [OF assms(1)])
  have "ws \<notin> set (delivered send (connected_websockets g))"
    using h by (simp add: delivered_def)
  then show "connected_websockets (snd (websocket_except e ws (snd (notify_data dc dp send data g))))
              = connected_websockets (snd (notify_data dc dp send data g))"
    using h by (simp add: websocket_except_registry [OF assms(1)] notify_data_decoded_ok remove1_idem)
next
  fix env :: ws_env and ts rest
  assume h: "receives env = map Text ts @ Raises e # rest
               \<and> accept_raises env = None \<and> send_raises env = None
               \<and> ws \<notin> set (connected_websockets g)"
  have k: "keep_alive (receives env) = Some e"
    using h by (simp add: keep_alive_script)
  have "fst (websocket_open env ws g) = None
      \<and> connected_websockets (snd (websocket_open env ws g)) = connected_websockets g @ [ws]"
    using h by (simp add: websocket_open_def Let_def)
  then obtain g1 where o: "websocket_open env ws g = (None, g1)"
     and c: "connected_websockets g1 = connected_websockets g @ [ws]"
    by (cases "websocket_open env ws g") auto
  have "websocket_endpoint env ws g = Some (websocket_except e ws g1)"
    using k o by (simp add: websocket_endpoint_def)
  then show "\<exists>g'. websocket_endpoint env ws g = Some (None, g')
                 \<and> connected_websockets g' = connected_websockets g"
    using websocket_except_registry [OF assms(1), of ws g1] c h
    by (cases "websocket_except e ws g1") (auto simp: remove1_append)
qed

theorem session_end_unregisters_witness:
  "is_Exception (WebSocketDisconnect ''1001'') \<and> distinct [4, 6 :: nat]
   \<and> websocket_except (WebSocketDisconnect ''1001'') 5 (initial\<lparr>connected_websockets := [4, 5, 6]\<rparr>)
       = (None, initial\<lparr>connected_websockets := [4, 6]\<rparr>)
   \<and> websocket_except (WebSocketDisconnect ''1001'') 5 (initial\<lparr>connected_websockets := [4, 6]\<rparr>)
       = (None, initial\<lparr>connected_websockets := [4, 6]\<rparr>)
   \<and> websocket_endpoint
        \<lparr>accept_raises = None, send_raises = None,
         receives = [Text ''ping'', Raises (WebSocketDisconnect ''1001''), Text ''late'']\<rparr>
        5 (initial\<lparr>connected_websockets := [4, 6]\<rparr>)
       = Some (None, initial\<lparr>connected_websockets := [4, 6]\<rparr>)
   \<and> websocket_endpoint
        \<lparr>accept_raises = None, send_raises = None,
         receives = [Text ''ping'', Text ''pong'', Raises (Exception ''reset'')]\<rparr>
        5 (initial\<lparr>connected_websockets := [4, 6]\<rparr>)
       = Some (None, initial\<lparr>connected_websockets := [4, 6],
                       stdout := [''WebSocket error: reset'']\<rparr>)"
proof -
  let ?g = "initial\<lparr>connected_websockets := [4, 6]\<rparr>"
  let ?env = "\<lparr>accept_raises = None, send_raises = None,
         receives = [Text ''ping'', Raises (WebSocketDisconnect ''1001''), Text ''late'']\<rparr>"
  have a: "is_Exception (WebSocketDisconnect ''1001'')" by simp
  have b: "distinct (connected_websockets ?g)" by simp
  have c: "websocket_except (WebSocketDisconnect ''1001'') 5 (initial\<lparr>connected_websockets := [4, 5, 6]\<rparr>)
       = (None, initial\<lparr>connected_websockets := [4, 6]\<rparr>)"
    by (simp add: websocket_except_def)
  have d: "websocket_except (WebSocketDisconnect ''1001'') 5 ?g = (None, ?g)"
    by (simp add: websocket_except_def)
  have script: "receives ?env = map Text [''ping''] @ Raises (WebSocketDisconnect ''1001'') # [Text ''late'']
               \<and> accept_raises ?env = None \<and> send_raises ?env = None
               \<and> 5 \<notin> set (connected_websockets ?g)"
    by simp
  from session_end_unregisters [OF a b, of 5] script
  obtain g' where run: "websocket_endpoint ?env 5 ?g = Some (None, g')"
    and reg: "connected_websockets g' = connected_websockets ?g"
    by blast
  have whole: "websocket_endpoint ?env 5 ?g = Some (None, ?g)"
    by (simp add: websocket_endpoint_def websocket_open_def websocket_except_def initial_def)
  have other: "websocket_endpoint
        \<lparr>accept_raises = None, send_raises = None,
         receives = [Text ''ping'', Text ''pong'', Raises (Exception ''reset'')]\<rparr> 5 ?g
       = Some (None, initial\<lparr>connected_websockets := [4, 6],
                       stdout := [''WebSocket error: reset'']\<rparr>)"
    by (simp add: websocket_endpoint_def websocket_open_def websocket_except_def print_def
        initial_def)
  from run reg c d whole other show ?thesis by simp
qed

subsection \<open>\<^verbatim>\<open>scan_devices\<close>\<close>

lemma detection_callback_step:
  "detection_callback da (F, g) =
     (if address (fst da) \<notin> F \<and> name (fst da) = Some ''Ooni_DT_Hub''
      then (insert (address (fst da)) F, g\<lparr>discovered_devices := discovered_devices g @ [entry da]\<rparr>)
      else (F, g))"
  by (cases da) (simp add: detection_callback_def entry_def)

lemma fold_detection_callback:
  "snd (fold detection_callback advs (F, g)) =
     g\<lparr>discovered_devices := discovered_devices g @ map entry (first_seen F advs)\<rparr>"
proof (induction advs arbitrary: F g)
  case Nil
  show ?case by simp
next
  case (Cons da advs)
  show ?case by (simp add: detection_callback_step Cons.IH)
qed

lemma filter_first_seen:
  "filter (\<lambda>da. address (fst da) = a) (first_seen F advs) =
     (if a \<in> F then []
      else case List.find (\<lambda>da. address (fst da) = a \<and> name (fst da) = Some ''Ooni_DT_Hub'') advs of
             None \<Rightarrow> [] | Some da \<Rightarrow> [da])"
  by (induction advs arbitrary: F) auto

lemma entries_of_map_entry:
  "entries_of a (map entry ks) = map entry (filter (\<lambda>da. address (fst da) = a) ks)"
  by (induction ks) (auto simp: entries_of_def entry_def)

lemma subseq_first_seen: "subseq (first_seen F advs) advs"
  by (induction advs arbitrary: F) auto

lemma first_seen_names: "da \<in> set (first_seen F advs) \<Longrightarrow> name (fst da) = Some ''Ooni_DT_Hub''"
  by (induction advs arbitrary: F) (auto split: if_splits)

lemma scan_devices_started:
  assumes "\<not> scanning g" "scanner_raises env = None" "start_raises env = None"
  shows "discovered_devices (snd (scan_devices env g)) = map entry (first_seen {} (advertisements env))"
  using assms
  by (cases "stop_raises env")
     (simp_all add: scan_devices_def Let_def fold_detection_callback perform_def except_scan_def)

lemma scan_devices_ok:
  assumes "\<not> scanning g" "scanner_raises env = None" "start_raises env = None" "stop_raises env = None"
  shows "scan_devices env g =
     (Inr [(''success'', JBool True),
           (''devices'', JList (map JDict (map entry (first_seen {} (advertisements env)))))],
      g\<lparr>scanning := False,
        discovered_devices := map entry (first_seen {} (advertisements env)),
        trace := trace g @ [(NewScanner, None), (ScannerStart, None), (Sleep 5, None), (ScannerStop, None)]\<rparr>)"
  using assms
  by (simp add: scan_devices_def Let_def fold_detection_callback perform_def)


lemma find_Some_holds: "List.find P xs = Some x \<Longrightarrow> P x"
  by (induction xs) (auto split: if_splits)

lemma sample_first_seen:
  "first_seen {} (advertisements sample_scan) =
     [(\<lparr>address = ''AA:01'', name = Some ''Ooni_DT_Hub''\<rparr>, \<lparr>rssi = - 70\<rparr>),
      (\<lparr>address = ''BB:02'', name = Some ''Ooni_DT_Hub''\<rparr>, \<lparr>rssi = - 40\<rparr>)]"
  by (simp add: sample_scan_def)

text \<open>
  C8. In a scan that started, take an address from which an advertisement with the
  product name arrived, and the first such advertisement. The result holds exactly one
  entry with that address, and it carries the signal strength of that first
  advertisement, whatever later advertisements from the address say. When the scanner
  stops without raising, the response is a success with that result.
\<close>

theorem scan_keeps_first_advertisement:
  assumes "\<not> scanning g" and "scanner_raises env = None" and "start_raises env = None"
    and "List.find (\<lambda>da. address (fst da) = a \<and> name (fst da) = Some ''Ooni_DT_Hub'')
           (advertisements env) = Some (device, adv)"
  shows "entries_of a (discovered_devices (snd (scan_devices env g))) =
           [[(''address'', JStr a), (''name'', JStr ''Ooni_DT_Hub''), (''rssi'', JInt (rssi adv))]]
       \<and> (stop_raises env = None \<longrightarrow>
            fst (scan_devices env g) =
              Inr [(''success'', JBool True),
                   (''devices'', JList (map JDict (discovered_devices (snd (scan_devices env g)))))])"
proof -
  have da: "address device = a" "name device = Some ''Ooni_DT_Hub''"
    using find_Some_holds [OF assms(4)] by simp_all
  have "entries_of a (discovered_devices (snd (scan_devices env g))) = [entry (device, adv)]"
    using assms(4)
    by (simp add: scan_devices_started [OF assms(1-3)] entries_of_map_entry filter_first_seen)
  then have one: "entries_of a (discovered_devices (snd (scan_devices env g))) =
           [[(''address'', JStr a), (''name'', JStr ''Ooni_DT_Hub''), (''rssi'', JInt (rssi adv))]]"
    using da by (simp add: entry_def)
  have "fst (scan_devices env g) =
          Inr [(''success'', JBool True),
               (''devices'', JList (map JDict (discovered_devices (snd (scan_devices env g)))))]"
    if "stop_raises env = None"
    by (simp add: scan_devices_ok [OF assms(1-3) that])
  with one show ?thesis by blast
qed

theorem scan_keeps_first_advertisement_witness:
  "\<not> scanning initial \<and> scanner_raises sample_scan = None \<and> start_raises sample_scan = None
   \<and> List.find (\<lambda>da. address (fst da) = ''AA:01'' \<and> name (fst da) = Some ''Ooni_DT_Hub'')
        (advertisements sample_scan)
       = Some (\<lparr>address = ''AA:01'', name = Some ''Ooni_DT_Hub''\<rparr>, \<lparr>rssi = - 70\<rparr>)
   \<and> entries_of ''AA:01'' (discovered_devices (snd (scan_devices sample_scan initial))) =
       [[(''address'', JStr ''AA:01''), (''name'', JStr ''Ooni_DT_Hub''), (''rssi'', JInt (- 70))]]"
proof -
  have a: "\<not> scanning initial" by (simp add: initial_def)
  have b: "scanner_raises sample_scan = None" and c: "start_raises sample_scan = None"
    by (simp_all add: sample_scan_def)
  have d: "List.find (\<lambda>da. address (fst da) = ''AA:01'' \<and> name (fst da) = Some ''Ooni_DT_Hub'')
        (advertisements sample_scan)
       = Some (\<lparr>address = ''AA:01'', name = Some ''Ooni_DT_Hub''\<rparr>, \<lparr>rssi = - 70\<rparr>)"
    by (simp add: sample_scan_def)
  from scan_keeps_first_advertisement [OF a b c d] a b c d show ?thesis by simp
qed

text \<open>
  C9, as stated, fails: \<^verbatim>\<open>scan_devices\<close> takes no duration, so a scan asked to last ten
  seconds sleeps five like every other scan.
\<close>

theorem scan_duration_counterexample:
  "(Sleep 10, None) \<notin> set (trace (snd (scan_devices sample_scan initial)))
   \<and> trace (snd (scan_devices sample_scan initial)) =
       [(NewScanner, None), (ScannerStart, None), (Sleep 5, None), (ScannerStop, None)]"
proof -
  have "\<not> scanning initial" by (simp add: initial_def)
  moreover have "scanner_raises sample_scan = None" "start_raises sample_scan = None"
      "stop_raises sample_scan = None"
    by (simp_all add: sample_scan_def)
  ultimately show ?thesis
    by (simp add: scan_devices_ok initial_def)
qed

text \<open>
  C9, amended. A scan that is not refused and whose scanner works opens the discovery
  session, waits a fixed five seconds and closes it, then answers with a success and
  the devices accepted in that window, in the order their first advertisements arrived
  (a subsequence of the advertisements, not sorted by signal strength), with the busy
  flag cleared. With no advertisement the answer is a success with the empty list.
\<close>

theorem scan_window_is_five_seconds:
  assumes "\<not> scanning g" and "scanner_raises env = None" and "start_raises env = None"
    and "stop_raises env = None"
  shows "calls_since g (snd (scan_devices env g)) =
           [(NewScanner, None), (ScannerStart, None), (Sleep 5, None), (ScannerStop, None)]
       \<and> fst (scan_devices env g) =
           Inr [(''success'', JBool True),
                (''devices'', JList (map JDict (map entry (first_seen {} (advertisements env)))))]
       \<and> subseq (first_seen {} (advertisements env)) (advertisements env)
       \<and> \<not> scanning (snd (scan_devices env g))
       \<and> (advertisements env = [] \<longrightarrow>
            fst (scan_devices env g) = Inr [(''success'', JBool True), (''devices'', JList [])])"
  by (simp add: scan_devices_ok [OF assms] calls_since_def subseq_first_seen)

theorem scan_window_is_five_seconds_witness:
  "\<not> scanning initial \<and> scanner_raises sample_scan = None \<and> start_raises sample_scan = None
   \<and> stop_raises sample_scan = None
   \<and> fst (scan_devices sample_scan initial) =
       Inr [(''success'', JBool True),
            (''devices'', JList
               [JDict [(''address'', JStr ''AA:01''), (''name'', JStr ''Ooni_DT_Hub''),
                       (''rssi'', JInt (- 70))],
                JDict [(''address'', JStr ''BB:02''), (''name'', JStr ''Ooni_DT_Hub''),
                       (''rssi'', JInt (- 40))]])]"
proof -
  have a: "\<not> scanning initial" by (simp add: initial_def)
  have b: "scanner_raises sample_scan = None" and c: "start_raises sample_scan = None"
    and d: "stop_raises sample_scan = None"
    by (simp_all add: sample_scan_def)
  from scan_window_is_five_seconds [OF a b c d] a b c d show ?thesis
    by (simp add: sample_first_seen entry_def)
qed

subsection \<open>\<^verbatim>\<open>connect_ble\<close> and \<^verbatim>\<open>connect_endpoint\<close>\<close>

lemma sample_connected_eq:
  "sample_connected =
     initial\<lparr>ble_client := Some 0,
       heap := [\<lparr>client_address = ''AA:01'', timeout = 20, is_connected = True, notifying = True\<rparr>],
       trace := [(NewClient ''AA:01'', None), (Connect 0, None), (StartNotify 0, None)]\<rparr>"
  by (simp add: sample_connected_def connect_ble_def disconnect_existing_def all_return_def
      perform_def initial_def Let_def)

lemma disconnect_existing_live:
  assumes "ble_client g = Some a" "is_connected (heap g ! a)"
  shows "disconnect_existing env g =
     (case stop_notify_raises env of
        Some e \<Rightarrow> (Some e, perform (StopNotify a) (Some e) g)
      | None \<Rightarrow>
          (case disconnect_raises env of
             Some e \<Rightarrow> (Some e, perform (Disconnect a) (Some e) (perform (StopNotify a) None g))
           | None \<Rightarrow> (None, perform (Disconnect a) None (perform (StopNotify a) None g))))"
  using assms by (simp add: disconnect_existing_def Let_def split: option.splits)

lemma disconnect_existing_fails:
  assumes "ble_client g = Some a" "is_connected (heap g ! a)" "teardown_error env = Some e"
  shows "fst (disconnect_existing env g) = Some e"
    and "ble_client (snd (disconnect_existing env g)) = Some a"
    and "length (heap (snd (disconnect_existing env g))) = length (heap g)"
    and "stdout (snd (disconnect_existing env g)) = stdout g"
    and "calls_since g (snd (disconnect_existing env g)) =
           (if stop_notify_raises env = None
            then [(StopNotify a, None), (Disconnect a, Some e)]
            else [(StopNotify a, Some e)])"
  using assms(1,3)
  by (auto simp: disconnect_existing_live [OF assms(1,2)] teardown_error_def perform_def
      calls_since_def split: option.splits)


lemma length_effect: "length (effect ev h) = length h + (case ev of (NewClient a, None) \<Rightarrow> 1 | _ \<Rightarrow> 0)"
  by (cases "(ev, h)" rule: effect.cases) (simp_all split: call.splits)

lemma disconnect_existing_heap:
  "length (heap (snd (disconnect_existing env g))) = length (heap g)"
  by (simp add: disconnect_existing_def perform_def Let_def split: option.splits)

lemma disconnect_existing_globals:
  "ble_client (snd (disconnect_existing env g)) = ble_client g"
  "stdout (snd (disconnect_existing env g)) = stdout g"
  by (simp_all add: disconnect_existing_def perform_def Let_def split: option.splits)

lemma connect_ble_teardown_fails:
  assumes "fst (disconnect_existing env g) = Some e"
  shows "connect_ble env addr g = (Inl e, snd (disconnect_existing env g))"
  using assms by (cases "disconnect_existing env g") (simp add: connect_ble_def)

lemma connect_ble_attempt:
  assumes "fst (disconnect_existing env g) = None"
  shows "connect_ble env addr g =
     (let g1 = snd (disconnect_existing env g);
          c = length (heap g);
          g2 = (perform (NewClient addr) None g1)\<lparr>ble_client := Some c\<rparr> in
      case connect_raises env of
        Some e \<Rightarrow> (Inl e, perform (Connect c) (Some e) g2)
      | None \<Rightarrow>
          (case start_notify_raises env of
             Some e \<Rightarrow> (Inl e, perform (StartNotify c) (Some e) (perform (Connect c) None g2))
           | None \<Rightarrow> (Inr True, perform (StartNotify c) None (perform (Connect c) None g2))))"
  using assms disconnect_existing_heap [of env g]
  by (cases "disconnect_existing env g") (simp add: connect_ble_def Let_def split: option.splits)

text \<open>
  C7, as stated, fails: with a client connected and a Bluetooth stack on which
  \<^verbatim>\<open>connect\<close> and \<^verbatim>\<open>start_notify\<close> would return, an exception of \<^verbatim>\<open>stop_notify\<close>
  makes the request fail. No client is built for the new address, no connection is
  tried, and nothing is printed.
\<close>

theorem teardown_error_blocks_counterexample:
  "fst (connect_endpoint (all_return\<lparr>stop_notify_raises := Some (Exception ''gatt'')\<rparr>)
          ''BB:02'' sample_connected)
     = Inr [(''success'', JBool False), (''error'', JStr ''gatt'')]
   \<and> calls_since sample_connected
        (snd (connect_endpoint (all_return\<lparr>stop_notify_raises := Some (Exception ''gatt'')\<rparr>)
           ''BB:02'' sample_connected))
     = [(StopNotify 0, Some (Exception ''gatt''))]
   \<and> map client_address
        (heap (snd (connect_endpoint (all_return\<lparr>stop_notify_raises := Some (Exception ''gatt'')\<rparr>)
           ''BB:02'' sample_connected)))
     = [''AA:01'']
   \<and> stdout (snd (connect_endpoint (all_return\<lparr>stop_notify_raises := Some (Exception ''gatt'')\<rparr>)
           ''BB:02'' sample_connected))
     = []"
  by (simp add: sample_connected_eq connect_endpoint_def connect_ble_def disconnect_existing_def
      all_return_def perform_def initial_def calls_since_def)

text \<open>
  C7, amended. When a client is held and connected and its teardown raises an
  \<^verbatim>\<open>Exception\<close> (in \<^verbatim>\<open>stop_notify\<close>, or in \<^verbatim>\<open>disconnect\<close> after it), the request ends with
  that error: the answer is a failure with the error's text, the old client stays held,
  no new client is built, nothing is printed, and the only calls made are those of the
  teardown up to the one that raised.
\<close>

theorem teardown_error_ends_connect:
  assumes "ble_client g = Some a" and "is_connected (heap g ! a)"
    and "teardown_error env = Some e" and "is_Exception e"
  shows "fst (connect_endpoint env addr g) =
           Inr [(''success'', JBool False), (''error'', JStr (str e))]
       \<and> ble_client (snd (connect_endpoint env addr g)) = Some a
       \<and> length (heap (snd (connect_endpoint env addr g))) = length (heap g)
       \<and> stdout (snd (connect_endpoint env addr g)) = stdout g
       \<and> calls_since g (snd (connect_endpoint env addr g)) =
           (if stop_notify_raises env = None
            then [(StopNotify a, None), (Disconnect a, Some e)]
            else [(StopNotify a, Some e)])"
proof -
  note f = disconnect_existing_fails [OF assms(1-3)]
  have "connect_endpoint env addr g =
      (Inr [(''success'', JBool False), (''error'', JStr (str e))],
       snd (disconnect_existing env g))"
    using assms(4) by (simp add: connect_endpoint_def connect_ble_teardown_fails [OF f(1)])
  then show ?thesis using f by simp
qed

theorem teardown_error_ends_connect_witness:
  "ble_client sample_connected = Some 0 \<and> is_connected (heap sample_connected ! 0)
   \<and> teardown_error (all_return\<lparr>disconnect_raises := Some (Exception ''busy'')\<rparr>)
       = Some (Exception ''busy'')
   \<and> is_Exception (Exception ''busy'')
   \<and> fst (connect_endpoint (all_return\<lparr>disconnect_raises := Some (Exception ''busy'')\<rparr>)
          ''BB:02'' sample_connected)
       = Inr [(''success'', JBool False), (''error'', JStr ''busy'')]
   \<and> calls_since sample_connected
        (snd (connect_endpoint (all_return\<lparr>disconnect_raises := Some (Exception ''busy'')\<rparr>)
           ''BB:02'' sample_connected))
       = [(StopNotify 0, None), (Disconnect 0, Some (Exception ''busy''))]"
proof -
  have a: "ble_client sample_connected = Some 0" and b: "is_connected (heap sample_connected ! 0)"
    by (simp_all add: sample_connected_eq)
  have c: "teardown_error (all_return\<lparr>disconnect_raises := Some (Exception ''busy'')\<rparr>)
       = Some (Exception ''busy'')"
    by (simp add: teardown_error_def all_return_def)
  have d: "is_Exception (Exception ''busy'')" by simp
  have e: "stop_notify_raises (all_return\<lparr>disconnect_raises := Some (Exception ''busy'')\<rparr>) = None"
    by (simp add: all_return_def)
  from teardown_error_ends_connect [OF a b c d, of "''BB:02''"] a b c e show ?thesis by simp
qed

text \<open>
  C1, as stated, fails: after a connection attempt that timed out, the request is
  answered with a failure, but \<^verbatim>\<open>ble_client\<close> holds the client built for the address
  that was tried.
\<close>

theorem failed_connect_keeps_client_counterexample:
  "fst (connect_endpoint (all_return\<lparr>connect_raises := Some (Exception ''timeout'')\<rparr>)
          ''AA:01'' initial)
     = Inr [(''success'', JBool False), (''error'', JStr ''timeout'')]
   \<and> ble_client (snd (connect_endpoint (all_return\<lparr>connect_raises := Some (Exception ''timeout'')\<rparr>)
          ''AA:01'' initial)) = Some 0
   \<and> heap (snd (connect_endpoint (all_return\<lparr>connect_raises := Some (Exception ''timeout'')\<rparr>)
          ''AA:01'' initial))
     = [\<lparr>client_address = ''AA:01'', timeout = 20, is_connected = False, notifying = False\<rparr>]"
  by (simp add: connect_endpoint_def connect_ble_def disconnect_existing_def
      all_return_def perform_def initial_def)

text \<open>
  C1, amended. When the teardown of the old link (if one was needed) went through and
  \<^verbatim>\<open>connect\<close> or \<^verbatim>\<open>start_notify\<close> raises an \<^verbatim>\<open>Exception\<close>, the request is answered with
  a failure that carries the error's text, and \<^verbatim>\<open>ble_client\<close> holds the client built
  for the attempted address: unconnected when \<^verbatim>\<open>connect\<close> raised, connected and without
  subscription when \<^verbatim>\<open>start_notify\<close> raised.
\<close>

theorem failed_connect_is_reported:
  assumes "fst (disconnect_existing env g) = None"
    and "attempt_error env = Some e" and "is_Exception e"
  shows "fst (connect_endpoint env addr g) =
           Inr [(''success'', JBool False), (''error'', JStr (str e))]
       \<and> ble_client (snd (connect_endpoint env addr g)) = Some (length (heap g))
       \<and> heap (snd (connect_endpoint env addr g)) ! length (heap g) =
           \<lparr>client_address = addr, timeout = 20,
            is_connected = (connect_raises env = None), notifying = False\<rparr>"
  using assms(2,3) disconnect_existing_heap [of env g]
  by (auto simp: connect_endpoint_def connect_ble_attempt [OF assms(1)] attempt_error_def
      perform_def Let_def nth_append split: option.splits)

theorem failed_connect_is_reported_witness:
  "fst (disconnect_existing (all_return\<lparr>start_notify_raises := Some (Exception ''rejected'')\<rparr>)
          sample_connected) = None
   \<and> attempt_error (all_return\<lparr>start_notify_raises := Some (Exception ''rejected'')\<rparr>)
       = Some (Exception ''rejected'')
   \<and> is_Exception (Exception ''rejected'')
   \<and> fst (connect_endpoint (all_return\<lparr>start_notify_raises := Some (Exception ''rejected'')\<rparr>)
          ''BB:02'' sample_connected)
       = Inr [(''success'', JBool False), (''error'', JStr ''rejected'')]
   \<and> ble_client (snd (connect_endpoint
          (all_return\<lparr>start_notify_raises := Some (Exception ''rejected'')\<rparr>)
          ''BB:02'' sample_connected)) = Some 1
   \<and> heap (snd (connect_endpoint
          (all_return\<lparr>start_notify_raises := Some (Exception ''rejected'')\<rparr>)
          ''BB:02'' sample_connected)) ! 1
       = \<lparr>client_address = ''BB:02'', timeout = 20, is_connected = True, notifying = False\<rparr>"
proof -
  let ?env = "all_return\<lparr>start_notify_raises := Some (Exception ''rejected'')\<rparr>"
  have a: "fst (disconnect_existing ?env sample_connected) = None"
    by (simp add: disconnect_existing_def sample_connected_eq all_return_def Let_def)
  have b: "attempt_error ?env = Some (Exception ''rejected'')"
    by (simp add: attempt_error_def all_return_def)
  have c: "is_Exception (Exception ''rejected'')" by simp
  have l: "length (heap sample_connected) = 1" by (simp add: sample_connected_eq)
  have d: "connect_raises ?env = None" by (simp add: all_return_def)
  from failed_connect_is_reported [OF a b c, of "''BB:02''"] a b show ?thesis
    by (simp add: l d)
qed

subsection \<open>One live subscription\<close>

lemma set_live_subscriptions:
  "set (live_subscriptions h) = {r. r < length h \<and> is_connected (h ! r) \<and> notifying (h ! r)}"
  by (auto simp: live_subscriptions_def)

lemma nth_update_in_range:
  "x < length h \<Longrightarrow> h[r := v] ! x = (if r = x then v else h ! x)"
  by (simp add: nth_list_update)

lemma live_subscriptions_le_1:
  assumes "set (live_subscriptions h) \<subseteq> {x}"
  shows "length (live_subscriptions h) \<le> 1"
proof -
  have "distinct (live_subscriptions h)"
    by (simp add: live_subscriptions_def)
  then have "length (live_subscriptions h) = card (set (live_subscriptions h))"
    by (simp add: distinct_card)
  also have "card (set (live_subscriptions h)) \<le> card {x}"
    using assms by (intro card_mono) auto
  finally show ?thesis by simp
qed

lemma live_after_removal:
  assumes "set (live_subscriptions h) \<subseteq> S"
  shows "set (live_subscriptions (effect (StopNotify r, None) h)) \<subseteq> S - {r}"
    and "set (live_subscriptions (effect (Disconnect r, None) h)) \<subseteq> S - {r}"
proof -
  have live: "x \<in> S" if "x < length h" "is_connected (h ! x)" "notifying (h ! x)" for x
    using assms that by (auto simp: set_live_subscriptions)
  show "set (live_subscriptions (effect (StopNotify r, None) h)) \<subseteq> S - {r}"
    by (auto simp: set_live_subscriptions nth_update_in_range intro: live split: if_splits)
  show "set (live_subscriptions (effect (Disconnect r, None) h)) \<subseteq> S - {r}"
    by (auto simp: set_live_subscriptions nth_update_in_range intro: live split: if_splits)
qed

lemma live_after_addition:
  assumes "set (live_subscriptions h) \<subseteq> S"
  shows "set (live_subscriptions (effect (Connect r, None) h)) \<subseteq> insert r S"
    and "set (live_subscriptions (effect (StartNotify r, None) h)) \<subseteq> insert r S"
    and "set (live_subscriptions (effect (NewClient a, None) h)) \<subseteq> S"
proof -
  have live: "x \<in> S" if "x < length h" "is_connected (h ! x)" "notifying (h ! x)" for x
    using assms that by (auto simp: set_live_subscriptions)
  show "set (live_subscriptions (effect (Connect r, None) h)) \<subseteq> insert r S"
    by (auto simp: set_live_subscriptions nth_update_in_range intro: live split: if_splits)
  show "set (live_subscriptions (effect (StartNotify r, None) h)) \<subseteq> insert r S"
    by (auto simp: set_live_subscriptions nth_update_in_range intro: live split: if_splits)
  show "set (live_subscriptions (effect (NewClient a, None) h)) \<subseteq> S"
    by (auto simp: set_live_subscriptions nth_append intro: live split: if_splits)
qed

lemma effect_raised: "effect (c, Some e) h = h"
  by (cases c) simp_all

lemma connect_ble_live_calls:
  assumes "ble_client g = Some a" "is_connected (heap g ! a)"
  shows "calls_since g (snd (connect_ble env addr g)) =
     (case stop_notify_raises env of
        Some e \<Rightarrow> [(StopNotify a, Some e)]
      | None \<Rightarrow>
          (case disconnect_raises env of
             Some e \<Rightarrow> [(StopNotify a, None), (Disconnect a, Some e)]
           | None \<Rightarrow>
               [(StopNotify a, None), (Disconnect a, None), (NewClient addr, None),
                (Connect (length (heap g)) , connect_raises env)] @
               (case connect_raises env of
                  Some e \<Rightarrow> []
                | None \<Rightarrow> [(StartNotify (length (heap g)), start_notify_raises env)])))"
  by (simp add: connect_ble_def disconnect_existing_live [OF assms] calls_since_def perform_def
      Let_def split: option.splits)

lemma heap_perform: "heap (perform c out g) = effect (c, out) (heap g)"
  by (simp add: perform_def)

lemma trace_perform: "trace (perform c out g) = trace g @ [(c, out)]"
  by (simp add: perform_def)

lemma connect_ble_replay:
  "heap (snd (connect_ble env addr g)) = replay (calls_since g (snd (connect_ble env addr g))) (heap g)"
  by (simp add: connect_ble_def disconnect_existing_def calls_since_def replay_def
      heap_perform trace_perform Let_def split: option.splits)


lemma replay_prefix_le_1:
  assumes "set (live_subscriptions h) \<subseteq> {a}"
    and "evs =
     (case o1 of
        Some e \<Rightarrow> [(StopNotify a, Some e)]
      | None \<Rightarrow>
          (case o2 of
             Some e \<Rightarrow> [(StopNotify a, None), (Disconnect a, Some e)]
           | None \<Rightarrow>
               [(StopNotify a, None), (Disconnect a, None), (NewClient addr, None), (Connect n, o3)] @
               (case o3 of Some e \<Rightarrow> [] | None \<Rightarrow> [(StartNotify n, o4)])))"
    and "prefix p evs"
  shows "length (live_subscriptions (replay p h)) \<le> 1"
proof -
  define h1 where "h1 = effect (StopNotify a, None) h"
  define h2 where "h2 = effect (Disconnect a, None) h1"
  define h3 where "h3 = effect (NewClient addr, None) h2"
  define h4 where "h4 = effect (Connect n, None) h3"
  define h5 where "h5 = effect (StartNotify n, None) h4"
  have b1: "set (live_subscriptions h1) \<subseteq> {}"
    using live_after_removal(1) [OF assms(1), of a] by (simp add: h1_def)
  have b2: "set (live_subscriptions h2) \<subseteq> {}"
    using live_after_removal(2) [OF b1, of a] by (simp add: h2_def)
  have b3: "set (live_subscriptions h3) \<subseteq> {}"
    using live_after_addition(3) [OF b2, of addr] by (simp add: h3_def)
  have b4: "set (live_subscriptions h4) \<subseteq> {n}"
    using live_after_addition(1) [OF b3, of n] by (simp add: h4_def)
  have b5: "set (live_subscriptions h5) \<subseteq> {n}"
    using live_after_addition(2) [OF b4, of n] by (simp add: h5_def)
  have le: "length (live_subscriptions x) \<le> 1" if "x \<in> {h, h1, h2, h3, h4, h5}" for x
  proof -
    have "set (live_subscriptions x) \<subseteq> {a} \<or> set (live_subscriptions x) \<subseteq> {n}"
      using that assms(1) b1 b2 b3 b4 b5 by auto
    then show ?thesis using live_subscriptions_le_1 by blast
  qed
  have raised: "effect (c, Some e) x = x" for c e x
    by (rule effect_raised)
  have "replay p h \<in> {h, h1, h2, h3, h4, h5}"
  proof (cases o1)
    case (Some e)
    then show ?thesis
      using assms(3) unfolding assms(2) by (auto simp: prefix_Cons replay_def raised simp del: effect.simps)
  next
    case None
    note o1 = this
    show ?thesis
    proof (cases o2)
      case (Some e)
      then show ?thesis
        using assms(3) o1 unfolding assms(2)
        by (auto simp: prefix_Cons replay_def raised h1_def [symmetric] simp del: effect.simps)
    next
      case None
      note o2 = this
      show ?thesis
      proof (cases o3)
        case (Some e)
        then show ?thesis
          using assms(3) o1 o2 unfolding assms(2)
          by (auto simp: prefix_Cons replay_def raised h1_def [symmetric] h2_def [symmetric]
              h3_def [symmetric] simp del: effect.simps)
      next
        case None
        then show ?thesis
          using assms(3) o1 o2 unfolding assms(2)
          by (cases o4)
             (auto simp: prefix_Cons replay_def raised h1_def [symmetric] h2_def [symmetric]
                h3_def [symmetric] h4_def [symmetric] h5_def [symmetric] simp del: effect.simps)
      qed
    qed
  qed
  then show ?thesis by (rule le)
qed

lemma connect_ble_order:
  assumes "evs =
     (case o1 of
        Some e \<Rightarrow> [(StopNotify a, Some e)]
      | None \<Rightarrow>
          (case o2 of
             Some e \<Rightarrow> [(StopNotify a, None), (Disconnect a, Some e)]
           | None \<Rightarrow>
               [(StopNotify a, None), (Disconnect a, None), (NewClient addr, None), (Connect n, o3)] @
               (case o3 of Some e \<Rightarrow> [] | None \<Rightarrow> [(StartNotify n, o4)])))"
    and "i < length evs" and "opens_link (fst (evs ! i))"
  shows "1 < i \<and> evs ! 0 = (StopNotify a, None) \<and> evs ! 1 = (Disconnect a, None)"
  using assms(2,3) unfolding assms(1)
  by (auto simp: nth_Cons' less_Suc_eq split: option.splits if_splits)

lemma disconnect_existing_live_subset:
  assumes "set (live_subscriptions (heap g)) \<subseteq> S"
  shows "set (live_subscriptions (heap (snd (disconnect_existing env g)))) \<subseteq> S"
proof -
  have 1: "set (live_subscriptions (effect (StopNotify a, None) (heap g))) \<subseteq> S" for a
    using live_after_removal(1) [OF assms, of a] by auto
  have 2: "set (live_subscriptions
             (effect (Disconnect a, None) (effect (StopNotify a, None) (heap g)))) \<subseteq> S" for a
    using live_after_removal(2) [OF 1, of a a] by auto
  show ?thesis
    using assms 1 2
    by (simp add: disconnect_existing_def heap_perform effect_raised Let_def
        split: option.splits del: effect.simps)
qed

lemma disconnect_existing_none_live:
  assumes "set (live_subscriptions (heap g)) \<subseteq> set_option (ble_client g)"
    and "fst (disconnect_existing env g) = None"
  shows "set (live_subscriptions (heap (snd (disconnect_existing env g)))) \<subseteq> {}"
proof (cases "ble_client g")
  case None
  then show ?thesis using assms(1) by (simp add: disconnect_existing_def)
next
  case (Some a)
  show ?thesis
  proof (cases "is_connected (heap g ! a)")
    case False
    then have "a \<notin> set (live_subscriptions (heap g))"
      by (simp add: set_live_subscriptions)
    then have "x \<notin> set (live_subscriptions (heap g))" for x
      using assms(1) Some by (cases "x = a") auto
    then have "set (live_subscriptions (heap g)) \<subseteq> {}"
      by blast
    then show ?thesis using Some False by (simp add: disconnect_existing_def)
  next
    case True
    have l: "set (live_subscriptions (heap g)) \<subseteq> {a}"
      using assms(1) Some by simp
    have 1: "set (live_subscriptions (effect (StopNotify a, None) (heap g))) \<subseteq> {}"
      using live_after_removal(1) [OF l, of a] by simp
    have 2: "set (live_subscriptions
               (effect (Disconnect a, None) (effect (StopNotify a, None) (heap g)))) \<subseteq> {}"
      using live_after_removal(2) [OF 1, of a] by simp
    show ?thesis
      using assms(2) 2
      by (simp add: disconnect_existing_live [OF Some True] heap_perform
          split: option.splits del: effect.simps)
  qed
qed

lemma connect_ble_keeps_single_subscription:
  assumes "set (live_subscriptions (heap g)) \<subseteq> set_option (ble_client g)"
  shows "set (live_subscriptions (heap (snd (connect_ble env addr g))))
           \<subseteq> set_option (ble_client (snd (connect_ble env addr g)))"
proof (cases "fst (disconnect_existing env g)")
  case (Some e)
  then show ?thesis
    using disconnect_existing_live_subset [OF assms, of env]
    by (simp add: connect_ble_teardown_fails disconnect_existing_globals)
next
  case None
  let ?h = "heap (snd (disconnect_existing env g))"
  let ?n = "length (heap g)"
  have 0: "set (live_subscriptions ?h) \<subseteq> {}"
    using assms None by (rule disconnect_existing_none_live)
  have 1: "set (live_subscriptions (effect (NewClient addr, None) ?h)) \<subseteq> {?n}"
    using live_after_addition(3) [OF 0, of addr] by auto
  have 2: "set (live_subscriptions (effect (Connect ?n, None) (effect (NewClient addr, None) ?h)))
             \<subseteq> {?n}"
    using live_after_addition(1) [OF 1, of ?n] by simp
  have 3: "set (live_subscriptions (effect (StartNotify ?n, None)
             (effect (Connect ?n, None) (effect (NewClient addr, None) ?h)))) \<subseteq> {?n}"
    using live_after_addition(2) [OF 2, of ?n] by simp
  show ?thesis
    using 1 2 3
    by (simp add: connect_ble_attempt [OF None] heap_perform effect_raised Let_def perform_def
        split: option.splits del: effect.simps)
qed

lemma initial_single_subscription:
  "set (live_subscriptions (heap initial)) \<subseteq> set_option (ble_client initial)"
  by (simp add: initial_def live_subscriptions_def)

text \<open>
  C2. A client \<open>a\<close> is held and connected, and no other client has a live
  subscription (true at the start and kept by every \<^verbatim>\<open>connect_ble\<close>, see
  \<open>connect_ble_keeps_single_subscription\<close>). Then in a call of \<^verbatim>\<open>connect_ble\<close> for a
  new address, any call for the new link (building the client, connecting, subscribing)
  comes after \<^verbatim>\<open>stop_notify\<close> and then \<^verbatim>\<open>disconnect\<close> on \<open>a\<close> have both returned; after
  every call made so far, at most one client has a live subscription; and the client
  objects at the end are those calls applied to the objects at the start.
\<close>

theorem reconnect_tears_down_first:
  assumes "ble_client g = Some a" and "is_connected (heap g ! a)"
    and "set (live_subscriptions (heap g)) \<subseteq> {a}"
  shows "(\<forall>i<length (calls_since g (snd (connect_ble env addrB g))).
            opens_link (fst (calls_since g (snd (connect_ble env addrB g)) ! i)) \<longrightarrow>
              1 < i
            \<and> calls_since g (snd (connect_ble env addrB g)) ! 0 = (StopNotify a, None)
            \<and> calls_since g (snd (connect_ble env addrB g)) ! 1 = (Disconnect a, None))
       \<and> (\<forall>p. prefix p (calls_since g (snd (connect_ble env addrB g))) \<longrightarrow>
            length (live_subscriptions (replay p (heap g))) \<le> 1)
       \<and> heap (snd (connect_ble env addrB g)) =
           replay (calls_since g (snd (connect_ble env addrB g))) (heap g)"
proof (intro conjI allI impI)
  note calls = connect_ble_live_calls [OF assms(1,2), of env addrB]
  show "1 < i" and "calls_since g (snd (connect_ble env addrB g)) ! 0 = (StopNotify a, None)"
    and "calls_since g (snd (connect_ble env addrB g)) ! 1 = (Disconnect a, None)"
    if "i < length (calls_since g (snd (connect_ble env addrB g)))"
      and "opens_link (fst (calls_since g (snd (connect_ble env addrB g)) ! i))" for i
    using connect_ble_order [OF calls that] by simp_all
  show "length (live_subscriptions (replay p (heap g))) \<le> 1"
    if "prefix p (calls_since g (snd (connect_ble env addrB g)))" for p
    using assms(3) calls that by (rule replay_prefix_le_1)
  show "heap (snd (connect_ble env addrB g)) =
           replay (calls_since g (snd (connect_ble env addrB g))) (heap g)"
    by (rule connect_ble_replay)
qed

theorem reconnect_tears_down_first_witness:
  "ble_client sample_connected = Some 0 \<and> is_connected (heap sample_connected ! 0)
   \<and> set (live_subscriptions (heap sample_connected)) \<subseteq> {0}
   \<and> calls_since sample_connected (snd (connect_ble all_return ''BB:02'' sample_connected))
       = [(StopNotify 0, None), (Disconnect 0, None), (NewClient ''BB:02'', None),
          (Connect 1, None), (StartNotify 1, None)]
   \<and> heap (snd (connect_ble all_return ''BB:02'' sample_connected))
       = [\<lparr>client_address = ''AA:01'', timeout = 20, is_connected = False, notifying = False\<rparr>,
          \<lparr>client_address = ''BB:02'', timeout = 20, is_connected = True, notifying = True\<rparr>]
   \<and> length (live_subscriptions (replay [(StopNotify 0, None), (Disconnect 0, None),
          (NewClient ''BB:02'', None), (Connect 1, None)] (heap sample_connected))) \<le> 1"
proof -
  have a: "ble_client sample_connected = Some 0" and b: "is_connected (heap sample_connected ! 0)"
    by (simp_all add: sample_connected_eq)
  have c: "set (live_subscriptions (heap sample_connected)) \<subseteq> {0}"
    by (simp add: sample_connected_eq live_subscriptions_def)
  have calls: "calls_since sample_connected (snd (connect_ble all_return ''BB:02'' sample_connected))
       = [(StopNotify 0, None), (Disconnect 0, None), (NewClient ''BB:02'', None),
          (Connect 1, None), (StartNotify 1, None)]"
    unfolding connect_ble_live_calls [OF a b]
    by (simp add: all_return_def sample_connected_eq)
  have p: "prefix [(StopNotify 0, None), (Disconnect 0, None), (NewClient ''BB:02'', None),
             (Connect 1, None)]
          (calls_since sample_connected (snd (connect_ble all_return ''BB:02'' sample_connected)))"
    by (simp add: calls)
  have h: "replay [(StopNotify 0, None), (Disconnect 0, None), (NewClient ''BB:02'', None),
          (Connect 1, None), (StartNotify 1, None)] (heap sample_connected)
       = [\<lparr>client_address = ''AA:01'', timeout = 20, is_connected = False, notifying = False\<rparr>,
          \<lparr>client_address = ''BB:02'', timeout = 20, is_connected = True, notifying = True\<rparr>]"
    by (simp add: replay_def sample_connected_eq)
  note t = reconnect_tears_down_first [OF a b c, of all_return "''BB:02''"]
  from t have "heap (snd (connect_ble all_return ''BB:02'' sample_connected)) =
      replay (calls_since sample_connected (snd (connect_ble all_return ''BB:02'' sample_connected)))
        (heap sample_connected)"
    by simp
  then have h': "heap (snd (connect_ble all_return ''BB:02'' sample_connected))
       = [\<lparr>client_address = ''AA:01'', timeout = 20, is_connected = False, notifying = False\<rparr>,
          \<lparr>client_address = ''BB:02'', timeout = 20, is_connected = True, notifying = True\<rparr>]"
    by (simp only: calls h)
  from t p have "length (live_subscriptions (replay [(StopNotify 0, None), (Disconnect 0, None),
          (NewClient ''BB:02'', None), (Connect 1, None)] (heap sample_connected))) \<le> 1"
    by blast
  with a b c calls h' show ?thesis by simp
qed

end
